theory Spec2Isabelle
  imports Main
begin

section \<open>Data model\<close>

text \<open>
  Calendar dates and timestamps are the values of Python's \<open>datetime.date\<close> and
  \<open>datetime.datetime\<close>. The ingestion code never computes with their components; it
  only produces them (through \<open>strptime\<close> and \<open>now\<close>) and compares dates for equality.
\<close>

record date =
  year :: nat
  month :: nat
  day :: nat

record datetime =
  dt_date :: date
  hour :: nat
  minute :: nat
  second :: nat

text \<open>
  The dictionary built by \<open>_transform_single_observation\<close>: the series identifier and the
  observation date are always present, the value and the validity window may be \<open>None\<close>.
  The type \<open>'d\<close> stands for Python's \<open>Decimal\<close>.
\<close>

record 'd obs_data =
  series_id :: string
  observation_date :: date
  obs_value :: "'d option"
  realtime_start :: "date option"
  realtime_end :: "date option"
  created_at :: datetime

text \<open>
  A row of the table \<open>fred_observations\<close> (class \<open>FredObservation\<close>): the columns of the
  dictionary plus the auto-incremented primary key \<open>id\<close>.
\<close>

record 'd obs_row = "'d obs_data" +
  row_id :: nat

text \<open>
  The table as the session sees it: its rows in insertion order and the next value of the
  \<open>id\<close> sequence. The schema of \<open>database_setup.py\<close> declares no unique constraint on
  (series_id, observation_date), so the rows are a list and may hold duplicates of a key.
\<close>

record 'd obs_table =
  rows :: "'d obs_row list"
  next_id :: nat

datatype db_error = MultipleResultsFound

section \<open>The observation upsert engine\<close>

text \<open>The \<open>WHERE\<close> clause of the lookup: equal series identifier and equal date.\<close>

definition key_matches :: "('d, 'a) obs_data_scheme \<Rightarrow> ('d, 'b) obs_data_scheme \<Rightarrow> bool" where
  "key_matches p r \<longleftrightarrow>
     series_id r = series_id p \<and> observation_date r = observation_date p"

definition select_obs :: "'d obs_row list \<Rightarrow> ('d, 'a) obs_data_scheme \<Rightarrow> 'd obs_row list" where
  "select_obs rs p = filter (key_matches p) rs"

text \<open>
  \<open>Result.scalar_one_or_none\<close>: no row gives \<open>None\<close>, one row gives that row, more than
  one row raises \<open>MultipleResultsFound\<close>.
\<close>

fun scalar_one_or_none :: "'r list \<Rightarrow> db_error + 'r option" where
  "scalar_one_or_none [] = Inr None"
| "scalar_one_or_none [r] = Inr (Some r)"
| "scalar_one_or_none (r # r' # rs) = Inl MultipleResultsFound"

text \<open>
  The update branch assigns \<open>value\<close>, \<open>realtime_start\<close> and \<open>realtime_end\<close> of the row
  that the lookup returned; the row is identified by its primary key.
\<close>

definition overwrite :: "'d obs_data \<Rightarrow> 'd obs_row \<Rightarrow> 'd obs_row" where
  "overwrite p r = r\<lparr>obs_value := obs_value p,
                      realtime_start := realtime_start p,
                      realtime_end := realtime_end p\<rparr>"

definition update_obs :: "'d obs_row \<Rightarrow> 'd obs_data \<Rightarrow> 'd obs_row list \<Rightarrow> 'd obs_row list" where
  "update_obs existing p rs =
     map (\<lambda>r. if row_id r = row_id existing then overwrite p r else r) rs"

text \<open>The insert branch: \<open>FredObservation(**obs_data)\<close> added to the session.\<close>

definition new_obs :: "nat \<Rightarrow> 'd obs_data \<Rightarrow> 'd obs_row" where
  "new_obs i p = obs_data.extend p (obs_row.fields i)"

definition add_obs :: "'d obs_data \<Rightarrow> 'd obs_table \<Rightarrow> 'd obs_table" where
  "add_obs p t = \<lparr>rows = rows t @ [new_obs (next_id t) p], next_id = Suc (next_id t)\<rparr>"

text \<open>
  The loop of \<open>_upsert_observations\<close>, with its two counters. An exception leaves the
  loop at once; the caller's session then rolls back, so no table is returned.
\<close>

fun upsert_loop ::
  "'d obs_table \<Rightarrow> 'd obs_data list \<Rightarrow> nat \<Rightarrow> nat \<Rightarrow> db_error + ('d obs_table \<times> nat \<times> nat)" where
  "upsert_loop t [] added updated = Inr (t, added, updated)"
| "upsert_loop t (p # ps) added updated =
     (case scalar_one_or_none (select_obs (rows t) p) of
        Inl e \<Rightarrow> Inl e
      | Inr (Some existing) \<Rightarrow>
          upsert_loop (t\<lparr>rows := update_obs existing p (rows t)\<rparr>) ps added (updated + 1)
      | Inr None \<Rightarrow> upsert_loop (add_obs p t) ps (added + 1) updated)"

definition upsert_observations ::
  "'d obs_table \<Rightarrow> 'd obs_data list \<Rightarrow> db_error + ('d obs_table \<times> nat \<times> nat)" where
  "upsert_observations t observations =
     (if observations = [] then Inr (t, 0, 0) else upsert_loop t observations 0 0)"

text \<open>
  The invariants of a table: no two rows share a (series, date) key, and primary keys are
  distinct and below the sequence's next value.
\<close>

definition row_key :: "('d, 'a) obs_data_scheme \<Rightarrow> string \<times> date" where
  "row_key r = (series_id r, observation_date r)"

definition unique_keys :: "'d obs_table \<Rightarrow> bool" where
  "unique_keys t \<longleftrightarrow> distinct (map row_key (rows t))"

definition ids_ok :: "'d obs_table \<Rightarrow> bool" where
  "ids_ok t \<longleftrightarrow> distinct (map row_id (rows t)) \<and> list_all (\<lambda>r. row_id r < next_id t) (rows t)"

definition empty_table :: "'d obs_table" where
  "empty_table = \<lparr>rows = [], next_id = 1\<rparr>"

text \<open>
  A point is stored in a table when some row with its key already carries its value and
  its validity window, so that overwriting that row with the point changes nothing.
\<close>

definition stored :: "'d obs_table \<Rightarrow> 'd obs_data \<Rightarrow> bool" where
  "stored t p \<longleftrightarrow> (\<exists>r \<in> set (rows t). key_matches p r \<and> overwrite p r = r)"

section \<open>The record normalizer\<close>

text \<open>
  The exceptions that the standard-library calls of the normalizer can raise.
  \<open>ValueError\<close> and \<open>InvalidOperation\<close> are the ones the source catches by name;
  \<open>OtherException\<close> stands for any other subclass of \<open>Exception\<close>.
\<close>

datatype exn = ValueError | InvalidOperation | OtherException

text \<open>
  A raw record of the external source is a dictionary; the fields the normalizer reads are
  annotated \<open>Optional[str]\<close>, so a key is absent, or bound to \<open>None\<close>, or bound to a
  string. \<open>dict_get d k\<close> is \<open>d.get(k)\<close>.
\<close>

type_synonym raw_record = "string \<Rightarrow> string option option"

definition dict_get :: "raw_record \<Rightarrow> string \<Rightarrow> string option" where
  "dict_get d k = (case d k of None \<Rightarrow> None | Some v \<Rightarrow> v)"

text \<open>
  \<open>datetime.strptime\<close> and the constructor \<open>Decimal\<close> belong to the standard library
  and are parameters of the model: \<open>strptime s fmt\<close> and \<open>decimal s\<close> return the parsed
  value or the exception raised.

  \<open>_parse_date\<close> (the same code in \<open>FredSeriesTransformer\<close> and in
  \<open>FredObservationTransformer\<close>): \<open>None\<close> and the empty string give \<open>None\<close>; a
  \<open>ValueError\<close> of \<open>strptime\<close> is caught and gives \<open>None\<close>; any other exception
  propagates.
\<close>

definition parse_date ::
  "(string \<Rightarrow> string \<Rightarrow> exn + datetime) \<Rightarrow> string option \<Rightarrow> exn + date option" where
  "parse_date strptime date_string =
     (case date_string of
        None \<Rightarrow> Inr None
      | Some s \<Rightarrow>
          if s = [] then Inr None
          else (case strptime s ''%Y-%m-%d'' of
                  Inr dt \<Rightarrow> Inr (Some (dt_date dt))
                | Inl e \<Rightarrow> if e = ValueError then Inr None else Inl e))"

text \<open>
  \<open>str.split\<close> with a one-character separator, \<open>str.join\<close>, and the two together as
  \<open>_parse_datetime\<close> uses them: \<open>'-'.join(s.split('-')[:-1])\<close>.
\<close>

fun split_on :: "char \<Rightarrow> string \<Rightarrow> string list" where
  "split_on c [] = [[]]"
| "split_on c (x # xs) =
     (if x = c then [] # split_on c xs
      else (case split_on c xs of
              [] \<Rightarrow> [[x]]
            | w # ws \<Rightarrow> (x # w) # ws))"

fun join :: "string \<Rightarrow> string list \<Rightarrow> string" where
  "join sep [] = []"
| "join sep [w] = w"
| "join sep (w # ws) = w @ sep @ join sep ws"

definition parse_datetime ::
  "(string \<Rightarrow> string \<Rightarrow> exn + datetime) \<Rightarrow> string option \<Rightarrow> exn + datetime option" where
  "parse_datetime strptime datetime_string =
     (case datetime_string of
        None \<Rightarrow> Inr None
      | Some s \<Rightarrow>
          if s = [] then Inr None
          else (case (if CHR '' '' \<in> set s \<and> CHR ''-'' \<in> set s
                      then strptime (join ''-'' (butlast (split_on CHR ''-'' s)))
                             ''%Y-%m-%d %H:%M:%S''
                      else strptime s ''%Y-%m-%d'') of
                  Inr dt \<Rightarrow> Inr (Some dt)
                | Inl e \<Rightarrow> if e = ValueError then Inr None else Inl e))"

text \<open>
  \<open>_parse_value\<close>: \<open>None\<close>, the empty string and the sentinel \<open>"."\<close> give \<open>None\<close>;
  \<open>InvalidOperation\<close> and \<open>ValueError\<close> of \<open>Decimal\<close> are caught and give \<open>None\<close>.
\<close>

definition parse_value :: "(string \<Rightarrow> exn + 'd) \<Rightarrow> string option \<Rightarrow> exn + 'd option" where
  "parse_value decimal value_string =
     (case value_string of
        None \<Rightarrow> Inr None
      | Some s \<Rightarrow>
          if s = [] \<or> s = ''.'' then Inr None
          else (case decimal s of
                  Inr v \<Rightarrow> Inr (Some v)
                | Inl e \<Rightarrow> if e = InvalidOperation \<or> e = ValueError then Inr None else Inl e))"

text \<open>
  \<open>_transform_single_observation\<close>: \<open>None\<close> when the key \<open>date\<close> is absent or its
  value does not parse, otherwise the dictionary of the point. \<open>now\<close> is the value of
  \<open>datetime.now(UTC)\<close>.
\<close>

definition transform_single_observation ::
  "(string \<Rightarrow> string \<Rightarrow> exn + datetime) \<Rightarrow> (string \<Rightarrow> exn + 'd) \<Rightarrow> datetime
     \<Rightarrow> raw_record \<Rightarrow> string \<Rightarrow> exn + 'd obs_data option" where
  "transform_single_observation strptime decimal now obs sid =
     (case obs ''date'' of
        None \<Rightarrow> Inr None
      | Some date_field \<Rightarrow>
         (case parse_date strptime date_field of
            Inl e \<Rightarrow> Inl e
          | Inr None \<Rightarrow> Inr None
          | Inr (Some obs_date) \<Rightarrow>
             (case parse_value decimal (dict_get obs ''value'') of
                Inl e \<Rightarrow> Inl e
              | Inr v \<Rightarrow>
                 (case parse_date strptime (dict_get obs ''realtime_start'') of
                    Inl e \<Rightarrow> Inl e
                  | Inr rt_start \<Rightarrow>
                     (case parse_date strptime (dict_get obs ''realtime_end'') of
                        Inl e \<Rightarrow> Inl e
                      | Inr rt_end \<Rightarrow>
                          Inr (Some \<lparr>series_id = sid, observation_date = obs_date,
                                     obs_value = v, realtime_start = rt_start,
                                     realtime_end = rt_end, created_at = now\<rparr>))))))"

text \<open>
  \<open>transform_observations\<close>: the loop appends every dictionary that
  \<open>_transform_single_observation\<close> returns, skips \<open>None\<close>, and its
  \<open>except Exception\<close> skips a record whose transformation raised.
\<close>

fun transform_observations ::
  "(string \<Rightarrow> string \<Rightarrow> exn + datetime) \<Rightarrow> (string \<Rightarrow> exn + 'd) \<Rightarrow> datetime
     \<Rightarrow> raw_record list \<Rightarrow> string \<Rightarrow> 'd obs_data list" where
  "transform_observations strptime decimal now [] sid = []"
| "transform_observations strptime decimal now (obs # rest) sid =
     (case transform_single_observation strptime decimal now obs sid of
        Inr (Some transformed) \<Rightarrow>
          transformed # transform_observations strptime decimal now rest sid
      | Inr None \<Rightarrow> transform_observations strptime decimal now rest sid
      | Inl e \<Rightarrow> transform_observations strptime decimal now rest sid)"

text \<open>
  The contracts of the two library functions on string arguments: \<open>strptime\<close> raises
  nothing but \<open>ValueError\<close>, \<open>Decimal\<close> nothing but \<open>InvalidOperation\<close> or
  \<open>ValueError\<close>.
\<close>

definition strptime_contract :: "(string \<Rightarrow> string \<Rightarrow> exn + datetime) \<Rightarrow> bool" where
  "strptime_contract strptime \<longleftrightarrow> (\<forall>s fmt e. strptime s fmt = Inl e \<longrightarrow> e = ValueError)"

definition decimal_contract :: "(string \<Rightarrow> exn + 'd) \<Rightarrow> bool" where
  "decimal_contract decimal \<longleftrightarrow>
     (\<forall>s e. decimal s = Inl e \<longrightarrow> e = InvalidOperation \<or> e = ValueError)"

text \<open>A raw record has a usable date when the key is bound to a string that parses.\<close>

definition date_parses :: "(string \<Rightarrow> string \<Rightarrow> exn + datetime) \<Rightarrow> raw_record \<Rightarrow> bool" where
  "date_parses strptime obs =
     (case obs ''date'' of
        Some (Some s) \<Rightarrow> s \<noteq> [] \<and> (case strptime s ''%Y-%m-%d'' of Inr dt \<Rightarrow> True | Inl e \<Rightarrow> False)
      | _ \<Rightarrow> False)"

text \<open>
  A numeric UTC-offset suffix as the specification speaks of it: a sign followed by digits,
  possibly with a colon (\<open>-05\<close>, \<open>+01\<close>, \<open>+05:30\<close>).
\<close>

definition utc_offset :: "string \<Rightarrow> bool" where
  "utc_offset off =
     (case off of
        [] \<Rightarrow> False
      | sg # ds \<Rightarrow> (sg = CHR ''+'' \<or> sg = CHR ''-'') \<and> ds \<noteq> []
                  \<and> list_all (\<lambda>c. c \<in> set ''0123456789:'') ds)"

section \<open>Series metadata and its upsert\<close>

text \<open>
  The dictionary returned by \<open>transform_series_info\<close>. Every key is always present but
  \<open>category\<close>, which exists only when the raw record has a \<open>category_id\<close>
  (\<open>None\<close> is the absent key). The fields \<open>s_series_id\<close> and \<open>s_created_at\<close> are the
  keys \<open>series_id\<close> and \<open>created_at\<close>, and \<open>series_notes\<close> is the key \<open>notes\<close>.
\<close>

record series_data =
  s_series_id :: string
  title :: string
  units :: string
  units_short :: string
  frequency :: string
  frequency_short :: string
  seasonal_adjustment :: string
  source :: string
  series_notes :: string
  popularity :: int
  observation_start :: "date option"
  observation_end :: "date option"
  last_updated :: "datetime option"
  s_created_at :: datetime
  updated_at :: datetime
  category :: "string option"

text \<open>
  A row of the table \<open>fred_series\<close> (class \<open>FredSeries\<close>): the columns above and the column
  \<open>subcategory\<close>, for which the dictionary has no key. In a row, \<open>None\<close> is SQL NULL.
\<close>

record series_row = series_data +
  subcategory :: "string option"

text \<open>The table is keyed by its primary key \<open>series_id\<close>; \<open>session.get\<close> is the lookup.\<close>

type_synonym series_table = "string \<Rightarrow> series_row option"

text \<open>\<open>FredSeries(**series_data)\<close>: the column without a key stays NULL.\<close>

definition new_series :: "series_data \<Rightarrow> series_row" where
  "new_series d = series_data.extend d (series_row.fields None)"

text \<open>
  The update loop: \<open>setattr\<close> for every key of the dictionary except \<open>created_at\<close>. The
  key \<open>category\<close> is assigned only when the dictionary has it.
\<close>

definition update_series :: "series_data \<Rightarrow> series_row \<Rightarrow> series_row" where
  "update_series d r =
     r\<lparr>s_series_id := s_series_id d,
       title := title d,
       units := units d,
       units_short := units_short d,
       frequency := frequency d,
       frequency_short := frequency_short d,
       seasonal_adjustment := seasonal_adjustment d,
       source := source d,
       series_notes := series_notes d,
       popularity := popularity d,
       observation_start := observation_start d,
       observation_end := observation_end d,
       last_updated := last_updated d,
       updated_at := updated_at d,
       category := (case category d of None \<Rightarrow> category r | Some c \<Rightarrow> Some c)\<rparr>"

text \<open>\<open>_upsert_series\<close>: the new table and the returned flag.\<close>

definition upsert_series :: "series_table \<Rightarrow> series_data \<Rightarrow> bool \<Rightarrow> series_table \<times> bool" where
  "upsert_series tbl d update_existing =
     (let existing_series = tbl (s_series_id d) in
      if existing_series \<noteq> None \<and> \<not> update_existing then (tbl, False)
      else (case existing_series of
              Some existing \<Rightarrow> (tbl(s_series_id d \<mapsto> update_series d existing), False)
            | None \<Rightarrow> (tbl(s_series_id d \<mapsto> new_series d), True)))"

section \<open>The validators\<close>

text \<open>
  \<open>validate_series_data\<close>: both required fields are present and truthy, and the
  identifier has at most 50 characters.
\<close>

definition validate_series_data :: "series_data \<Rightarrow> bool" where
  "validate_series_data d =
     (if s_series_id d = [] then False
      else if title d = [] then False
      else if length (s_series_id d) > 50 then False
      else True)"

text \<open>
  \<open>validate_observation_data\<close> rejects a dictionary in which \<open>series_id\<close> or
  \<open>observation_date\<close> is missing or \<open>None\<close>. In a dictionary of type \<open>obs_data\<close> both
  are present, so the check passes.
\<close>

definition validate_observation_data :: "'d obs_data \<Rightarrow> bool" where
  "validate_observation_data obs = True"

section \<open>The orchestrator\<close>

text \<open>The dictionary \<open>result\<close> of \<open>ingest_series\<close>.\<close>

record sync_result =
  res_series_id :: string
  res_success :: bool
  series_added :: bool
  observations_added :: nat
  observations_updated :: nat
  res_error_message :: "string option"
  res_api_calls_used :: nat

text \<open>A row of the table \<open>fred_sync_log\<close> (class \<open>FredSyncLog\<close>), without its surrogate key.\<close>

record sync_log_row =
  log_series_id :: string
  sync_date :: datetime
  records_added :: nat
  records_updated :: nat
  log_success :: bool
  log_error_message :: "string option"
  log_api_calls_used :: nat

text \<open>The three tables of \<open>database_setup.py\<close>.\<close>

record 'd database =
  fred_series :: series_table
  fred_observations :: "'d obs_table"
  fred_sync_log :: "sync_log_row list"

text \<open>
  What \<open>ingest_series\<close> takes from outside: the two calls of the API client, which return
  the raw data or raise an exception with a message (\<open>Inl\<close>); the series transformer,
  which returns the dictionary or raises \<open>FredTransformationError\<close> with a message; the
  library parsers; the clock; and the cutoff date
  \<open>datetime.now().date() - timedelta(days=days_lookback)\<close>, whose date arithmetic may raise
  \<open>OverflowError\<close>.
\<close>

record ('raw, 'd) environment =
  fetch_series_info :: "string \<Rightarrow> string + 'raw"
  fetch_observations :: "string \<Rightarrow> date option \<Rightarrow> string + raw_record list"
  transform_fred_series :: "'raw \<Rightarrow> string + series_data"
  env_strptime :: "string \<Rightarrow> string \<Rightarrow> exn + datetime"
  env_decimal :: "string \<Rightarrow> exn + 'd"
  env_now :: datetime
  cutoff_date :: "int \<Rightarrow> string + date"

text \<open>
  \<open>_log_sync_result\<close> adds one row to \<open>fred_sync_log\<close> and commits. The column
  \<open>series_id\<close> of that table is declared \<open>ForeignKey("fred_series.series_id")\<close>: the
  database rejects a row whose series has no row in \<open>fred_series\<close>, the commit raises
  \<open>IntegrityError\<close>, and the \<open>except Exception\<close> of \<open>_log_sync_result\<close> logs the
  error and returns, leaving the table as it was.
\<close>

definition log_sync_result :: "'d database \<Rightarrow> sync_result \<Rightarrow> datetime \<Rightarrow> 'd database" where
  "log_sync_result db result sync_start_time =
     (let log_entry = \<lparr>log_series_id = res_series_id result,
                        sync_date = sync_start_time,
                        records_added = observations_added result,
                        records_updated = observations_updated result,
                        log_success = res_success result,
                        log_error_message = res_error_message result,
                        log_api_calls_used = res_api_calls_used result\<rparr>
      in if fred_series db (log_series_id log_entry) = None then db
         else db\<lparr>fred_sync_log := fred_sync_log db @ [log_entry]\<rparr>)"

text \<open>The \<open>except Exception\<close> branch of \<open>ingest_series\<close>: store the message, log the attempt.\<close>

definition ingest_failed ::
  "('raw, 'd) environment \<Rightarrow> 'd database \<Rightarrow> sync_result \<Rightarrow> string \<Rightarrow> 'd database \<times> sync_result" where
  "ingest_failed env db result msg =
     (let result' = result\<lparr>res_error_message := Some msg\<rparr>
      in (log_sync_result db result' (env_now env), result'))"

text \<open>The text of \<open>str(e)\<close> for the exception of the lookup.\<close>

definition db_error_message :: "db_error \<Rightarrow> string" where
  "db_error_message e =
     (case e of
        MultipleResultsFound \<Rightarrow> ''Multiple rows were found when one or none was required'')"

text \<open>
  \<open>ingest_series\<close>, step by step. Each session commits when its block ends, so the series
  upsert stays when a later step fails; a failed observation upsert rolls its own session
  back. When the API returns no observations the function returns early, without writing
  to \<open>fred_sync_log\<close>.

  The column \<open>series_id\<close> of \<open>fred_observations\<close> is declared
  \<open>ForeignKey("fred_series.series_id")\<close> as well. The observation rows carry the
  requested identifier; when the API returns the metadata of the series it was asked for
  (\<open>returns_requested_series\<close> below), step 2 has stored a row under that identifier
  and the rows of step 6 meet the foreign key. The model follows \<open>ingest_series\<close> under
  that condition.
\<close>

definition ingest_series ::
  "('raw, 'd) environment \<Rightarrow> 'd database \<Rightarrow> string \<Rightarrow> bool \<Rightarrow> int \<Rightarrow> 'd database \<times> sync_result" where
  "ingest_series env db sid update_existing days_lookback =
     (let result = \<lparr>res_series_id = sid, res_success = False, series_added = False,
                    observations_added = 0, observations_updated = 0,
                    res_error_message = None, res_api_calls_used = 0\<rparr>
      in case fetch_series_info env sid of
           Inl msg \<Rightarrow> ingest_failed env db result msg
         | Inr raw_series_data \<Rightarrow>
      let result = result\<lparr>res_api_calls_used := res_api_calls_used result + 1\<rparr>
      in case transform_fred_series env raw_series_data of
           Inl msg \<Rightarrow> ingest_failed env db result msg
         | Inr transformed_series \<Rightarrow>
      if \<not> validate_series_data transformed_series
      then ingest_failed env db result (''Series data validation failed for '' @ sid)
      else
      let (tbl, added) = upsert_series (fred_series db) transformed_series update_existing;
          db = db\<lparr>fred_series := tbl\<rparr>;
          result = result\<lparr>series_added := added\<rparr>
      in case (if \<not> update_existing then Inr None
               else map_sum id Some (cutoff_date env days_lookback)) of
           Inl msg \<Rightarrow> ingest_failed env db result msg
         | Inr start_date \<Rightarrow>
      case fetch_observations env sid start_date of
           Inl msg \<Rightarrow> ingest_failed env db result msg
         | Inr raw_observations \<Rightarrow>
      let result = result\<lparr>res_api_calls_used := res_api_calls_used result + 1\<rparr>
      in if raw_observations = [] then (db, result\<lparr>res_success := True\<rparr>)
      else
      let transformed_observations =
            transform_observations (env_strptime env) (env_decimal env) (env_now env)
              raw_observations sid;
          valid_observations = filter validate_observation_data transformed_observations
      in case (if valid_observations \<noteq> []
               then upsert_observations (fred_observations db) valid_observations
               else Inr (fred_observations db, 0, 0)) of
           Inl e \<Rightarrow> ingest_failed env db result (db_error_message e)
         | Inr (t, added, updated) \<Rightarrow>
      let db = db\<lparr>fred_observations := t\<rparr>;
          result = result\<lparr>observations_added := added, observations_updated := updated,
                          res_success := True\<rparr>
      in (log_sync_result db result (env_now env), result))"

definition returns_requested_series :: "('raw, 'd) environment \<Rightarrow> bool" where
  "returns_requested_series env \<longleftrightarrow>
     (\<forall>sid raw d. fetch_series_info env sid = Inr raw \<and> transform_fred_series env raw = Inr d
        \<longrightarrow> s_series_id d = sid)"

text \<open>The dictionary \<open>summary\<close> of \<open>sync_multiple_series\<close>.\<close>

record summary =
  total_series :: nat
  successful_series :: nat
  failed_series :: nat
  total_api_calls :: nat
  sync_timestamp :: datetime
  detailed_results :: "sync_result list"

text \<open>
  The loop of \<open>sync_multiple_series\<close> with its four accumulators. \<open>ingest_series\<close>
  catches every exception of its body and returns, so the \<open>except\<close> branch of this loop
  is never entered.
\<close>

fun sync_loop ::
  "('raw, 'd) environment \<Rightarrow> 'd database \<Rightarrow> string list \<Rightarrow> bool \<Rightarrow> int
     \<Rightarrow> sync_result list \<Rightarrow> nat \<Rightarrow> nat \<Rightarrow> nat
     \<Rightarrow> 'd database \<times> sync_result list \<times> nat \<times> nat \<times> nat" where
  "sync_loop env db [] update_existing days_lookback results calls ok bad =
     (db, results, calls, ok, bad)"
| "sync_loop env db (sid # rest) update_existing days_lookback results calls ok bad =
     (case ingest_series env db sid update_existing days_lookback of
        (db', result) \<Rightarrow>
          sync_loop env db' rest update_existing days_lookback
            (results @ [result])
            (calls + res_api_calls_used result)
            (if res_success result then ok + 1 else ok)
            (if res_success result then bad else bad + 1))"

definition sync_multiple_series ::
  "('raw, 'd) environment \<Rightarrow> 'd database \<Rightarrow> string list \<Rightarrow> bool \<Rightarrow> int
     \<Rightarrow> 'd database \<times> summary" where
  "sync_multiple_series env db series_ids update_existing days_lookback =
     (case sync_loop env db series_ids update_existing days_lookback [] 0 0 0 of
        (db', results, calls, ok, bad) \<Rightarrow>
          (db', \<lparr>total_series = length series_ids,
                 successful_series = ok,
                 failed_series = bad,
                 total_api_calls = calls,
                 sync_timestamp = env_now env,
                 detailed_results = results\<rparr>))"

text \<open>A failed attempt of a series is recorded when the ledger holds a row for it.\<close>

definition failure_recorded :: "'d database \<Rightarrow> string \<Rightarrow> bool" where
  "failure_recorded db sid =
     list_ex (\<lambda>row. log_series_id row = sid \<and> \<not> log_success row) (fred_sync_log db)"

section \<open>Example values\<close>

text \<open>Concrete dates, timestamps and points on which the theorems below are instantiated.\<close>

definition example_date :: date where
  "example_date = \<lparr>year = 2024, month = 10, day = 1\<rparr>"

definition example_now :: datetime where
  "example_now = \<lparr>dt_date = \<lparr>year = 2025, month = 8, day = 7\<rparr>, hour = 12, minute = 0, second = 0\<rparr>"

definition example_point :: "string \<Rightarrow> int option \<Rightarrow> int obs_data" where
  "example_point s v = \<lparr>series_id = s, observation_date = example_date, obs_value = v,
     realtime_start = Some (dt_date example_now), realtime_end = Some (dt_date example_now),
     created_at = example_now\<rparr>"

text \<open>
  The behaviour of \<open>datetime.strptime\<close> and of \<open>Decimal\<close> on the strings of the
  examples, as tables: the listed strings parse to the listed values, and the other strings
  that the examples use (\<open>not-a-date\<close>, \<open>2025-07\<close>, \<open>n/a\<close>) are rejected with
  \<open>ValueError\<close> and \<open>InvalidOperation\<close>. A decimal is written as a pair of coefficient
  and exponent.
\<close>

definition midnight :: "nat \<Rightarrow> nat \<Rightarrow> nat \<Rightarrow> datetime" where
  "midnight y m d = \<lparr>dt_date = \<lparr>year = y, month = m, day = d\<rparr>, hour = 0, minute = 0, second = 0\<rparr>"

definition example_strptime :: "string \<Rightarrow> string \<Rightarrow> exn + datetime" where
  "example_strptime s fmt =
     (case map_of
        [((''2025-04-01'', ''%Y-%m-%d''), midnight 2025 4 1),
         ((''2025-01-01'', ''%Y-%m-%d''), midnight 2025 1 1),
         ((''2024-10-01'', ''%Y-%m-%d''), midnight 2024 10 1),
         ((''2024-07-01'', ''%Y-%m-%d''), midnight 2024 7 1),
         ((''2024-04-01'', ''%Y-%m-%d''), midnight 2024 4 1),
         ((''2024-01-01'', ''%Y-%m-%d''), midnight 2024 1 1),
         ((''2023-10-01'', ''%Y-%m-%d''), midnight 2023 10 1),
         ((''2023-07-01'', ''%Y-%m-%d''), midnight 2023 7 1),
         ((''2025-08-07'', ''%Y-%m-%d''), midnight 2025 8 7),
         ((''2025-07-30 07:56:35'', ''%Y-%m-%d %H:%M:%S''),
            \<lparr>dt_date = \<lparr>year = 2025, month = 7, day = 30\<rparr>, hour = 7, minute = 56, second = 35\<rparr>)]
        (s, fmt) of
        Some dt \<Rightarrow> Inr dt
      | None \<Rightarrow> Inl ValueError)"

definition example_decimal :: "string \<Rightarrow> exn + (int \<times> int)" where
  "example_decimal s =
     (case map_of
        [(''30331.117'', (30331117, -3)),
         (''29962.047'', (29962047, -3)),
         (''0'', (0, 0)),
         (''100'', (100, 0)),
         (''105'', (105, 0))] s of
        Some v \<Rightarrow> Inr v
      | None \<Rightarrow> Inl InvalidOperation)"

text \<open>A raw observation record with the four keys of the external source.\<close>

definition raw_obs :: "string \<Rightarrow> string \<Rightarrow> raw_record" where
  "raw_obs d v = map_of [(''date'', Some d), (''value'', Some v),
                         (''realtime_start'', Some ''2025-08-07''),
                         (''realtime_end'', Some ''2025-08-07'')]"

definition raw_obs_without_date :: "string \<Rightarrow> raw_record" where
  "raw_obs_without_date v = map_of [(''value'', Some v),
                                    (''realtime_start'', Some ''2025-08-07''),
                                    (''realtime_end'', Some ''2025-08-07'')]"

definition ten_raw_observations :: "raw_record list" where
  "ten_raw_observations =
     [raw_obs ''2025-04-01'' ''30331.117'',
      raw_obs ''2025-01-01'' ''29962.047'',
      raw_obs ''2024-10-01'' ''.'',
      raw_obs_without_date ''100'',
      raw_obs ''2024-07-01'' ''n/a'',
      raw_obs ''2024-04-01'' ''100'',
      raw_obs ''not-a-date'' ''105'',
      raw_obs ''2024-01-01'' ''0'',
      raw_obs ''2023-10-01'' [],
      raw_obs ''2023-07-01'' ''105'']"

text \<open>Series metadata as the transformer returns it for the series \<open>GDP\<close>.\<close>

definition example_series :: "string \<Rightarrow> string \<Rightarrow> string option \<Rightarrow> series_data" where
  "example_series sid ttl cat =
     \<lparr>s_series_id = sid, title = ttl, units = ''Billions of Dollars'',
      units_short = ''Bil. of $'', frequency = ''Quarterly'', frequency_short = ''Q'',
      seasonal_adjustment = [], source = [], series_notes = ''BEA Account Code: A191RL1Q225SBEA'',
      popularity = 0,
      observation_start = None, observation_end = Some example_date,
      last_updated = Some example_now, s_created_at = example_now, updated_at = example_now,
      category = cat\<rparr>"

text \<open>
  An environment for the orchestrator. The API knows the series \<open>GDP\<close> and \<open>UNRATE\<close>
  and answers any other identifier with an error; the raw metadata is the pair of
  identifier and title.
\<close>

definition example_env :: "(string \<times> string, int \<times> int) environment" where
  "example_env =
     \<lparr>fetch_series_info = (\<lambda>sid.
          if sid = ''GDP'' then Inr (''GDP'', ''Gross Domestic Product'')
          else if sid = ''UNRATE'' then Inr (''UNRATE'', ''Unemployment Rate'')
          else Inl ''FRED API error: 400 - Bad Request''),
      fetch_observations = (\<lambda>sid start.
          if sid = ''GDP''
          then Inr [raw_obs ''2025-04-01'' ''30331.117'', raw_obs ''2025-01-01'' ''29962.047'']
          else if sid = ''UNRATE'' then Inr [raw_obs ''2025-04-01'' ''.'']
          else Inl ''FRED API error: 400 - Bad Request''),
      transform_fred_series = (\<lambda>raw. Inr (example_series (fst raw) (snd raw) None)),
      env_strptime = example_strptime,
      env_decimal = example_decimal,
      env_now = example_now,
      cutoff_date = (\<lambda>days. Inr example_date)\<rparr>"

definition empty_database :: "(int \<times> int) database" where
  "empty_database = \<lparr>fred_series = Map.empty, fred_observations = empty_table, fred_sync_log = []\<rparr>"

section \<open>Properties of the upsert engine\<close>

lemma key_matches_row_key: "key_matches p r \<longleftrightarrow> row_key r = row_key p"
  by (auto simp: key_matches_def row_key_def)

lemma select_obs_unique:
  "distinct (map row_key rs) \<Longrightarrow> select_obs rs p = [] \<or> (\<exists>r. select_obs rs p = [r])"
proof (induction rs)
  case Nil
  then show ?case by (simp add: select_obs_def)
next
  case (Cons a rs)
  show ?case
  proof (cases "key_matches p a")
    case True
    have "\<forall>r \<in> set rs. \<not> key_matches p r"
    proof
      fix r assume "r \<in> set rs"
      then have "row_key r \<in> set (map row_key rs)" by simp
      moreover have "row_key a \<notin> set (map row_key rs)" using Cons.prems by simp
      ultimately have "row_key r \<noteq> row_key a" by metis
      with True show "\<not> key_matches p r" by (simp add: key_matches_row_key)
    qed
    then have "filter (key_matches p) rs = []" by (simp add: filter_empty_conv)
    with True show ?thesis by (simp add: select_obs_def)
  next
    case False
    with Cons show ?thesis by (simp add: select_obs_def)
  qed
qed

lemma row_key_overwrite [simp]: "row_key (overwrite p r) = row_key r"
  by (simp add: overwrite_def row_key_def)

lemma row_id_overwrite [simp]: "row_id (overwrite p r) = row_id r"
  by (simp add: overwrite_def)

lemma map_row_key_update_obs [simp]: "map row_key (update_obs e p rs) = map row_key rs"
  by (induction rs) (simp_all add: update_obs_def)

lemma map_row_id_update_obs [simp]: "map row_id (update_obs e p rs) = map row_id rs"
  by (induction rs) (simp_all add: update_obs_def)

lemma row_key_new_obs [simp]: "row_key (new_obs i p) = row_key p"
  by (simp add: new_obs_def row_key_def obs_data.defs obs_row.defs)

lemma row_id_new_obs [simp]: "row_id (new_obs i p) = i"
  by (simp add: new_obs_def obs_data.defs obs_row.defs)

lemma select_obs_empty_iff: "select_obs rs p = [] \<longleftrightarrow> row_key p \<notin> set (map row_key rs)"
  by (induction rs) (simp_all add: select_obs_def key_matches_row_key)

lemma unique_keys_update:
  "unique_keys t \<Longrightarrow> unique_keys (t\<lparr>rows := update_obs e p (rows t)\<rparr>)"
  by (simp add: unique_keys_def)

lemma ids_ok_update:
  "ids_ok t \<Longrightarrow> ids_ok (t\<lparr>rows := update_obs e p (rows t)\<rparr>)"
proof -
  assume a: "ids_ok t"
  have "list_all (\<lambda>r. row_id r < next_id t) (update_obs e p (rows t))"
    using a by (induction "rows t") (auto simp: ids_ok_def list_all_iff update_obs_def)
  moreover have "distinct (map row_id (update_obs e p (rows t)))"
    using a by (simp add: ids_ok_def)
  ultimately show ?thesis by (simp add: ids_ok_def)
qed

lemma unique_keys_add:
  "unique_keys t \<Longrightarrow> select_obs (rows t) p = [] \<Longrightarrow> unique_keys (add_obs p t)"
  by (simp add: unique_keys_def add_obs_def select_obs_empty_iff)

lemma ids_ok_add: "ids_ok t \<Longrightarrow> ids_ok (add_obs p t)"
  by (auto simp: ids_ok_def add_obs_def list_all_iff less_Suc_eq)

lemma upsert_loop_total:
  "unique_keys t \<Longrightarrow> ids_ok t \<Longrightarrow>
   \<exists>t' a' u'. upsert_loop t ps a u = Inr (t', a', u') \<and> a' + u' = a + u + length ps
      \<and> unique_keys t' \<and> ids_ok t'"
proof (induction ps arbitrary: t a u)
  case Nil
  then show ?case by simp
next
  case (Cons p ps)
  from select_obs_unique[of "rows t" p] Cons.prems(1)
  consider "select_obs (rows t) p = []" | r where "select_obs (rows t) p = [r]"
    by (auto simp: unique_keys_def)
  then show ?case
  proof cases
    case 1
    from Cons.IH[OF unique_keys_add[OF Cons.prems(1) 1] ids_ok_add[OF Cons.prems(2)], of "a + 1" u]
    show ?thesis using 1 by auto
  next
    case 2
    from Cons.IH[OF unique_keys_update[OF Cons.prems(1)] ids_ok_update[OF Cons.prems(2)], of r p a "u + 1"]
    show ?thesis using 2 by auto
  qed
qed

lemma upsert_loop_counts:
  "upsert_loop t ps a u = Inr (t', a', u') \<Longrightarrow> a' + u' = a + u + length ps"
proof (induction ps arbitrary: t a u)
  case Nil
  then show ?case by simp
next
  case (Cons p ps)
  show ?case
  proof (cases "scalar_one_or_none (select_obs (rows t) p)")
    case (Inl e)
    with Cons.prems show ?thesis by simp
  next
    case (Inr found)
    show ?thesis
    proof (cases found)
      case None
      with Inr Cons.prems have "upsert_loop (add_obs p t) ps (a + 1) u = Inr (t', a', u')"
        by simp
      from Cons.IH[OF this] show ?thesis by simp
    next
      case (Some e)
      with Inr Cons.prems
      have "upsert_loop (t\<lparr>rows := update_obs e p (rows t)\<rparr>) ps a (u + 1) = Inr (t', a', u')"
        by simp
      from Cons.IH[OF this] show ?thesis by simp
    qed
  qed
qed

text \<open>
  Claim C10 (count conservation). Whenever \<open>_upsert_observations\<close> returns, the two
  counts add up to the length of the batch: every point is classified exactly once. On a
  table that satisfies its invariants it does return. An empty batch returns (0, 0) and
  the table as it was.
\<close>

theorem upsert_count_conservation:
  "(\<forall>t' added updated. upsert_observations t batch = Inr (t', added, updated)
       \<longrightarrow> added + updated = length batch)
   \<and> (unique_keys t \<and> ids_ok t \<longrightarrow>
        (\<exists>t' added updated. upsert_observations t batch = Inr (t', added, updated)))
   \<and> upsert_observations t [] = Inr (t, 0, 0)"
proof (intro conjI allI impI)
  fix t' added updated
  assume "upsert_observations t batch = Inr (t', added, updated)"
  then show "added + updated = length batch"
    using upsert_loop_counts[of t batch 0 0 t' added updated]
    by (cases "batch = []") (auto simp: upsert_observations_def)
next
  assume "unique_keys t \<and> ids_ok t"
  then show "\<exists>t' added updated. upsert_observations t batch = Inr (t', added, updated)"
    using upsert_loop_total[of t batch 0 0]
    by (cases "batch = []") (auto simp: upsert_observations_def)
next
  show "upsert_observations t [] = Inr (t, 0, 0)"
    by (simp add: upsert_observations_def)
qed

theorem upsert_count_conservation_witness:
  "unique_keys (empty_table :: int obs_table) \<and> ids_ok (empty_table :: int obs_table)
   \<and> (\<exists>t'. upsert_observations empty_table
            [example_point ''GDP'' (Some 100), example_point ''GDP'' None, example_point ''UNRATE'' None]
          = Inr (t', 2, 1))
   \<and> (2::nat) + 1 = length
        [example_point ''GDP'' (Some 100), example_point ''GDP'' None, example_point ''UNRATE'' None]"
  using upsert_count_conservation [of "empty_table :: int obs_table"
      "[example_point ''GDP'' (Some 100), example_point ''GDP'' None, example_point ''UNRATE'' None]"]
  by (simp add: unique_keys_def ids_ok_def empty_table_def upsert_observations_def
      example_point_def select_obs_def key_matches_def add_obs_def update_obs_def new_obs_def
      obs_data.defs obs_row.defs overwrite_def)

lemma upsert_loop_all_new:
  "distinct (map row_key ps) \<Longrightarrow> set (map row_key ps) \<inter> set (map row_key (rows t)) = {} \<Longrightarrow>
   upsert_loop t ps a u = Inr (foldl (\<lambda>t p. add_obs p t) t ps, a + length ps, u)"
proof (induction ps arbitrary: t a)
  case Nil
  then show ?case by simp
next
  case (Cons p ps)
  have absent: "select_obs (rows t) p = []"
    using Cons.prems(2) by (simp add: select_obs_empty_iff)
  have "set (map row_key ps) \<inter> set (map row_key (rows (add_obs p t))) = {}"
    using Cons.prems by (auto simp: add_obs_def)
  with Cons.IH[of "add_obs p t" "a + 1"] Cons.prems(1)
  have "upsert_loop (add_obs p t) ps (a + 1) u
          = Inr (foldl (\<lambda>t p. add_obs p t) (add_obs p t) ps, a + 1 + length ps, u)"
    by simp
  with absent show ?case by simp
qed

lemma overwrite_new_obs [simp]: "overwrite p (new_obs i p) = new_obs i p"
  by (simp add: overwrite_def new_obs_def obs_data.defs obs_row.defs)

lemma stored_add_same: "stored (add_obs p t) p"
  by (auto simp: stored_def add_obs_def key_matches_row_key)

lemma stored_add_other: "stored t q \<Longrightarrow> stored (add_obs p t) q"
  by (auto simp: stored_def add_obs_def)

lemma stored_foldl_keep:
  "stored t q \<Longrightarrow> stored (foldl (\<lambda>t p. add_obs p t) t ps) q"
  by (induction ps arbitrary: t) (simp_all add: stored_add_other)

lemma stored_foldl:
  "q \<in> set ps \<Longrightarrow> stored (foldl (\<lambda>t p. add_obs p t) t ps) q"
proof (induction ps arbitrary: t)
  case Nil
  then show ?case by simp
next
  case (Cons p ps)
  show ?case
  proof (cases "q = p")
    case True
    then show ?thesis using stored_foldl_keep[OF stored_add_same, of p t ps] by simp
  next
    case False
    with Cons show ?thesis by simp
  qed
qed

lemma update_obs_noop:
  assumes ids: "distinct (map row_id rs)" and e: "e \<in> set rs" and same: "overwrite p e = e"
  shows "update_obs e p rs = rs"
proof -
  have "\<forall>r \<in> set rs. (if row_id r = row_id e then overwrite p r else r) = r"
  proof
    fix r assume r: "r \<in> set rs"
    show "(if row_id r = row_id e then overwrite p r else r) = r"
    proof (cases "row_id r = row_id e")
      case True
      with ids r e have "r = e" by (meson distinct_map inj_onD)
      with same show ?thesis by simp
    next
      case False
      then show ?thesis by simp
    qed
  qed
  then show ?thesis by (simp add: update_obs_def map_idI)
qed

lemma upsert_loop_all_stored:
  assumes "unique_keys t" and "ids_ok t" and "\<forall>p \<in> set ps. stored t p"
  shows "upsert_loop t ps a u = Inr (t, a, u + length ps)"
  using assms(3)
proof (induction ps arbitrary: u)
  case Nil
  then show ?case by simp
next
  case (Cons p ps)
  from Cons.prems obtain r where r: "r \<in> set (rows t)" "key_matches p r" "overwrite p r = r"
    by (auto simp: stored_def)
  then have in_sel: "r \<in> set (select_obs (rows t) p)" by (simp add: select_obs_def)
  with select_obs_unique[of "rows t" p] assms(1)
  have sel: "select_obs (rows t) p = [r]" by (auto simp: unique_keys_def)
  have "update_obs r p (rows t) = rows t"
    using update_obs_noop[OF _ r(1) r(3)] assms(2) by (simp add: ids_ok_def)
  then have same: "t\<lparr>rows := update_obs r p (rows t)\<rparr> = t" by simp
  from Cons.IH[of "u + 1"] Cons.prems
  have "upsert_loop t ps a (u + 1) = Inr (t, a, u + 1 + length ps)" by simp
  with sel same show ?case by simp
qed

text \<open>
  Claim C1 (idempotence). For a batch whose (series, date) keys are pairwise distinct, the
  first run against the empty table adds every point, and a second run of the same batch
  returns the very same table with \<open>added = 0\<close> and \<open>updated = len(batch)\<close>.
\<close>

theorem upsert_idempotent:
  assumes "distinct (map row_key batch)"
  shows "\<exists>t1. upsert_observations empty_table batch = Inr (t1, length batch, 0)
            \<and> upsert_observations t1 batch = Inr (t1, 0, length batch)"
proof (cases "batch = []")
  case True
  then show ?thesis by (simp add: upsert_observations_def)
next
  case False
  let ?t1 = "foldl (\<lambda>t p. add_obs p t) empty_table batch"
  have first: "upsert_loop empty_table batch 0 0 = Inr (?t1, length batch, 0)"
    using upsert_loop_all_new[OF assms, of empty_table 0 0] by (simp add: empty_table_def)
  have inv0: "unique_keys (empty_table :: 'a obs_table)" "ids_ok (empty_table :: 'a obs_table)"
    by (simp_all add: unique_keys_def ids_ok_def empty_table_def)
  from upsert_loop_total[OF inv0, of batch 0 0] first
  have inv1: "unique_keys ?t1" "ids_ok ?t1" by auto
  have "\<forall>p \<in> set batch. stored ?t1 p" by (simp add: stored_foldl)
  from upsert_loop_all_stored[OF inv1 this, of 0 0]
  have second: "upsert_loop ?t1 batch 0 0 = Inr (?t1, 0, length batch)" by simp
  from first second False show ?thesis by (auto simp: upsert_observations_def)
qed

theorem upsert_idempotent_witness:
  "distinct (map row_key [example_point ''GDP'' (Some 100), example_point ''UNRATE'' None])
   \<and> (\<exists>t1. upsert_observations empty_table
                [example_point ''GDP'' (Some 100), example_point ''UNRATE'' None] = Inr (t1, 2, 0)
          \<and> upsert_observations t1
                [example_point ''GDP'' (Some 100), example_point ''UNRATE'' None] = Inr (t1, 0, 2))"
proof -
  have h: "distinct (map row_key [example_point ''GDP'' (Some 100), example_point ''UNRATE'' None])"
    by (simp add: row_key_def example_point_def)
  from upsert_idempotent [OF h] h show ?thesis by (simp add: numeral_2_eq_2)
qed

lemma select_obs_same_key:
  "key_matches p q \<Longrightarrow> select_obs rs q = select_obs rs p"
  by (simp add: select_obs_def key_matches_def cong: filter_cong)

lemma key_matches_overwrite [simp]: "key_matches p (overwrite q r) = key_matches p r"
  by (simp add: key_matches_row_key)

lemma select_obs_update_obs:
  "select_obs (update_obs e q rs) p = update_obs e q (select_obs rs p)"
  by (induction rs) (simp_all add: select_obs_def update_obs_def)

lemma select_after_upsert_one:
  assumes "unique_keys t" and "upsert_loop t [p] a u = Inr (t', a', u')"
  shows "\<exists>r. select_obs (rows t') p = [r]"
proof -
  from select_obs_unique[of "rows t" p] assms(1)
  consider "select_obs (rows t) p = []" | e where "select_obs (rows t) p = [e]"
    by (auto simp: unique_keys_def)
  then show ?thesis
  proof cases
    case 1
    with assms(2) have "t' = add_obs p t" by simp
    with 1 show ?thesis
      by (simp add: add_obs_def select_obs_def key_matches_row_key)
  next
    case 2
    with assms(2) have "rows t' = update_obs e p (rows t)" by auto
    then have "select_obs (rows t') p = update_obs e p [e]"
      using 2 by (simp only: select_obs_update_obs)
    then show ?thesis by (simp add: update_obs_def)
  qed
qed

text \<open>
  Claim C2 (revision overwrite, last write wins). On a table that satisfies its invariants,
  upserting a point and then a second point with the same (series, date) key leaves exactly
  one row under that key; its value and validity window are those of the second point,
  whether or not the second value is null, and the second upsert reports
  \<open>added = 0\<close>, \<open>updated = 1\<close>.
\<close>

theorem revision_overwrite:
  assumes "unique_keys t" and "ids_ok t" and "key_matches p1 p2"
  shows "\<exists>t1 a1 u1 t2 r.
           upsert_observations t [p1] = Inr (t1, a1, u1)
         \<and> upsert_observations t1 [p2] = Inr (t2, 0, 1)
         \<and> select_obs (rows t2) p2 = [r]
         \<and> obs_value r = obs_value p2
         \<and> realtime_start r = realtime_start p2
         \<and> realtime_end r = realtime_end p2"
proof -
  from upsert_loop_total[OF assms(1,2), of "[p1]" 0 0]
  obtain t1 a1 u1 where first: "upsert_loop t [p1] 0 0 = Inr (t1, a1, u1)"
    and inv1: "unique_keys t1" "ids_ok t1" by auto
  from select_after_upsert_one[OF assms(1) first]
  obtain e where "select_obs (rows t1) p1 = [e]" by auto
  with select_obs_same_key[OF assms(3), of "rows t1"]
  have sel: "select_obs (rows t1) p2 = [e]" by simp
  let ?t2 = "t1\<lparr>rows := update_obs e p2 (rows t1)\<rparr>"
  from sel have second: "upsert_loop t1 [p2] 0 0 = Inr (?t2, 0, 1)" by simp
  have "select_obs (rows ?t2) p2 = update_obs e p2 (select_obs (rows t1) p2)"
    by (simp add: select_obs_update_obs)
  with sel have after: "select_obs (rows ?t2) p2 = [overwrite p2 e]"
    by (simp add: update_obs_def)
  have "obs_value (overwrite p2 e) = obs_value p2"
    "realtime_start (overwrite p2 e) = realtime_start p2"
    "realtime_end (overwrite p2 e) = realtime_end p2"
    by (simp_all add: overwrite_def)
  with first second after show ?thesis
    by (auto simp: upsert_observations_def)
qed

theorem revision_overwrite_witness:
  "unique_keys (empty_table :: int obs_table) \<and> ids_ok (empty_table :: int obs_table)
   \<and> key_matches (example_point ''X'' (Some 100)) (example_point ''X'' None)
   \<and> (\<exists>t1 a1 u1 t2 r.
           upsert_observations empty_table [example_point ''X'' (Some 100)] = Inr (t1, a1, u1)
         \<and> upsert_observations t1 [example_point ''X'' None] = Inr (t2, 0, 1)
         \<and> select_obs (rows t2) (example_point ''X'' None) = [r]
         \<and> obs_value r = None)"
proof -
  have h1: "unique_keys (empty_table :: int obs_table)"
    by (simp add: unique_keys_def empty_table_def)
  have h2: "ids_ok (empty_table :: int obs_table)"
    by (simp add: ids_ok_def empty_table_def)
  have h3: "key_matches (example_point ''X'' (Some 100)) (example_point ''X'' None)"
    by (simp add: key_matches_def example_point_def)
  have "obs_value (example_point ''X'' None) = None"
    by (simp add: example_point_def)
  with revision_overwrite [OF h1 h2 h3] h1 h2 h3 show ?thesis by metis
qed

section \<open>Properties of the record normalizer\<close>

lemma split_on_not_Nil [simp]: "split_on c s \<noteq> []"
  by (induction s) (auto split: list.splits)

lemma split_on_no_sep: "c \<notin> set s \<Longrightarrow> split_on c s = [s]"
  by (induction s) auto

lemma split_on_append:
  "split_on c (pre @ c # suf) = split_on c pre @ split_on c suf"
proof (induction pre)
  case Nil
  then show ?case by simp
next
  case (Cons x pre)
  obtain w ws where w: "split_on c pre = w # ws"
    by (cases "split_on c pre") auto
  with Cons show ?case by (auto split: list.splits)
qed

lemma join_Cons: "ws \<noteq> [] \<Longrightarrow> join sep (w # ws) = w @ sep @ join sep ws"
  by (cases ws) auto

lemma join_split_on: "join [c] (split_on c s) = s"
proof (induction s)
  case Nil
  then show ?case by simp
next
  case (Cons x s)
  obtain w ws where w: "split_on c s = w # ws"
    by (cases "split_on c s") auto
  show ?case
  proof (cases "x = c")
    case True
    with Cons show ?thesis by (simp add: join_Cons)
  next
    case False
    show ?thesis
    proof (cases ws)
      case Nil
      with w Cons False show ?thesis by simp
    next
      case (Cons v vs)
      with w Cons.IH False show ?thesis by simp
    qed
  qed
qed

lemma strip_after_last_sep:
  assumes "c \<notin> set suf"
  shows "join [c] (butlast (split_on c (pre @ c # suf))) = pre"
proof -
  have "split_on c (pre @ c # suf) = split_on c pre @ [suf]"
    using assms by (simp add: split_on_append split_on_no_sep)
  then show ?thesis by (simp add: join_split_on)
qed

lemma last_sep_decomposition:
  "c \<in> set s \<Longrightarrow> \<exists>pre suf. s = pre @ c # suf \<and> c \<notin> set suf"
  by (metis split_list_last)

lemma parse_date_total:
  "strptime_contract strptime \<Longrightarrow> \<exists>r. parse_date strptime x = Inr r"
  by (auto simp: parse_date_def strptime_contract_def split: option.splits sum.splits)

lemma parse_value_total:
  "decimal_contract decimal \<Longrightarrow> \<exists>r. parse_value decimal x = Inr r"
  by (auto simp: parse_value_def decimal_contract_def split: option.splits sum.splits)

lemma example_strptime_contract: "strptime_contract example_strptime"
  by (auto simp: strptime_contract_def example_strptime_def split: option.splits)

lemma example_decimal_contract: "decimal_contract example_decimal"
  by (auto simp: decimal_contract_def example_decimal_def split: option.splits)

text \<open>
  Claim C9, as the code has it. \<open>_parse_datetime\<close> never raises (given that
  \<open>strptime\<close> raises nothing but \<open>ValueError\<close>). When the string holds a space and a
  hyphen, everything from the last hyphen on is cut off and the rest is parsed under
  \<open>%Y-%m-%d %H:%M:%S\<close>: this strips an offset that is introduced by a hyphen, such as
  \<open>-05\<close>. Any other non-empty string is parsed under \<open>%Y-%m-%d\<close>. A parse failure,
  \<open>None\<close> and the empty string give \<open>None\<close>.
\<close>

theorem parse_datetime_total_and_strips:
  assumes "strptime_contract strptime"
  shows "(\<exists>r. parse_datetime strptime x = Inr r)
       \<and> (\<forall>pre suf. CHR ''-'' \<notin> set suf \<and> CHR '' '' \<in> set (pre @ suf) \<longrightarrow>
            parse_datetime strptime (Some (pre @ CHR ''-'' # suf))
              = (case strptime pre ''%Y-%m-%d %H:%M:%S'' of
                   Inr dt \<Rightarrow> Inr (Some dt)
                 | Inl e \<Rightarrow> Inr None))
       \<and> (\<forall>s. s \<noteq> [] \<and> \<not> (CHR '' '' \<in> set s \<and> CHR ''-'' \<in> set s) \<longrightarrow>
            parse_datetime strptime (Some s)
              = (case strptime s ''%Y-%m-%d'' of
                   Inr dt \<Rightarrow> Inr (Some dt)
                 | Inl e \<Rightarrow> Inr None))
       \<and> parse_datetime strptime None = Inr None
       \<and> parse_datetime strptime (Some []) = Inr None"
proof (intro conjI allI impI)
  show "\<exists>r. parse_datetime strptime x = Inr r"
    using assms
    by (auto simp: parse_datetime_def strptime_contract_def split: option.splits sum.splits)
next
  fix pre suf
  assume h: "CHR ''-'' \<notin> set suf \<and> CHR '' '' \<in> set (pre @ suf)"
  then have strip: "join ''-'' (butlast (split_on CHR ''-'' (pre @ CHR ''-'' # suf))) = pre"
    using strip_after_last_sep[of "CHR ''-''" suf pre] by simp
  have sp: "CHR '' '' \<in> set (pre @ CHR ''-'' # suf)" using h by auto
  have hy: "CHR ''-'' \<in> set (pre @ CHR ''-'' # suf)" by simp
  have ne: "pre @ CHR ''-'' # suf \<noteq> []" by simp
  have "parse_datetime strptime (Some (pre @ CHR ''-'' # suf))
          = (case strptime pre ''%Y-%m-%d %H:%M:%S'' of
               Inr dt \<Rightarrow> Inr (Some dt)
             | Inl e \<Rightarrow> if e = ValueError then Inr None else Inl e)"
    unfolding parse_datetime_def option.case if_not_P[OF ne] using sp hy strip
    by (simp only: conj_commute simp_thms if_True)
  also have "\<dots> = (case strptime pre ''%Y-%m-%d %H:%M:%S'' of
               Inr dt \<Rightarrow> Inr (Some dt) | Inl e \<Rightarrow> Inr None)"
    using assms by (auto simp: strptime_contract_def split: sum.splits)
  finally show "parse_datetime strptime (Some (pre @ CHR ''-'' # suf))
          = (case strptime pre ''%Y-%m-%d %H:%M:%S'' of
               Inr dt \<Rightarrow> Inr (Some dt) | Inl e \<Rightarrow> Inr None)" .
next
  fix s
  assume h: "s \<noteq> [] \<and> \<not> (CHR '' '' \<in> set s \<and> CHR ''-'' \<in> set s)"
  then have "parse_datetime strptime (Some s)
          = (case strptime s ''%Y-%m-%d'' of
               Inr dt \<Rightarrow> Inr (Some dt)
             | Inl e \<Rightarrow> if e = ValueError then Inr None else Inl e)"
    by (auto simp: parse_datetime_def)
  also have "\<dots> = (case strptime s ''%Y-%m-%d'' of
               Inr dt \<Rightarrow> Inr (Some dt) | Inl e \<Rightarrow> Inr None)"
    using assms by (auto simp: strptime_contract_def split: sum.splits)
  finally show "parse_datetime strptime (Some s)
          = (case strptime s ''%Y-%m-%d'' of
               Inr dt \<Rightarrow> Inr (Some dt) | Inl e \<Rightarrow> Inr None)" .
next
  show "parse_datetime strptime None = Inr None" by (simp add: parse_datetime_def)
next
  show "parse_datetime strptime (Some []) = Inr None" by (simp add: parse_datetime_def)
qed

text \<open>
  Claim C9 as stated fails for an offset with a plus sign: in
  \<open>2025-07-30 07:56:35+01\<close> the last hyphen is the one before the day, so the string
  handed to \<open>strptime\<close> is \<open>2025-07\<close> and the result is \<open>None\<close>, although the
  part before the offset parses.
\<close>

theorem parse_datetime_positive_offset_counterexample:
  "utc_offset ''+01''
   \<and> example_strptime ''2025-07-30 07:56:35'' ''%Y-%m-%d %H:%M:%S''
       = Inr \<lparr>dt_date = \<lparr>year = 2025, month = 7, day = 30\<rparr>, hour = 7, minute = 56, second = 35\<rparr>
   \<and> parse_datetime example_strptime (Some (''2025-07-30 07:56:35'' @ ''+01'')) = Inr None"
  by (simp add: utc_offset_def parse_datetime_def example_strptime_def)

lemma transform_single_when_date_parses:
  assumes sc: "strptime_contract strptime" and dc: "decimal_contract decimal"
    and d: "obs ''date'' = Some (Some ds)" "ds \<noteq> []" "strptime ds ''%Y-%m-%d'' = Inr dt"
  shows "\<exists>v rs re.
      parse_value decimal (dict_get obs ''value'') = Inr v
    \<and> parse_date strptime (dict_get obs ''realtime_start'') = Inr rs
    \<and> parse_date strptime (dict_get obs ''realtime_end'') = Inr re
    \<and> transform_single_observation strptime decimal now obs sid
        = Inr (Some \<lparr>series_id = sid, observation_date = dt_date dt, obs_value = v,
                     realtime_start = rs, realtime_end = re, created_at = now\<rparr>)"
proof -
  from parse_value_total[OF dc] obtain v
    where v: "parse_value decimal (dict_get obs ''value'') = Inr v" by blast
  from parse_date_total[OF sc] obtain rs
    where rs: "parse_date strptime (dict_get obs ''realtime_start'') = Inr rs" by blast
  from parse_date_total[OF sc] obtain re
    where re: "parse_date strptime (dict_get obs ''realtime_end'') = Inr re" by blast
  have pd: "parse_date strptime (Some ds) = Inr (Some (dt_date dt))"
    using d by (simp add: parse_date_def)
  show ?thesis
    using v rs re pd d(1) by (simp add: transform_single_observation_def)
qed

lemma transform_single_when_date_fails:
  assumes sc: "strptime_contract strptime" and nd: "\<not> date_parses strptime obs"
  shows "transform_single_observation strptime decimal now obs sid = Inr None"
proof (cases "obs ''date''")
  case None
  then show ?thesis by (simp add: transform_single_observation_def)
next
  case (Some field)
  have "parse_date strptime field = Inr None"
  proof (cases field)
    case None
    then show ?thesis by (simp add: parse_date_def)
  next
    case (Some s)
    with nd \<open>obs ''date'' = Some field\<close> sc show ?thesis
      by (auto simp: date_parses_def parse_date_def strptime_contract_def split: sum.splits)
  qed
  with Some show ?thesis by (simp add: transform_single_observation_def)
qed

lemma date_parsesD:
  "date_parses strptime obs \<Longrightarrow>
     \<exists>ds dt. obs ''date'' = Some (Some ds) \<and> ds \<noteq> [] \<and> strptime ds ''%Y-%m-%d'' = Inr dt"
  by (auto simp: date_parses_def split: option.splits sum.splits)

text \<open>
  Claim C4 (null-value sentinel). A raw record whose \<open>date\<close> is present and parses is
  transformed into a point and kept by \<open>transform_observations\<close>. When its value is
  absent, \<open>None\<close>, empty, the sentinel \<open>"."\<close> or a string that \<open>Decimal\<close>
  rejects, the value of the point is \<open>None\<close>; a string that \<open>Decimal\<close> accepts
  (such as \<open>"0"\<close>) gives \<open>Some\<close> of its number, which is never \<open>None\<close>.
\<close>

theorem null_value_sentinel:
  assumes "strptime_contract strptime" and "decimal_contract decimal"
    and "obs ''date'' = Some (Some ds)" and "ds \<noteq> []" and "strptime ds ''%Y-%m-%d'' = Inr dt"
  shows "\<exists>p. transform_single_observation strptime decimal now obs sid = Inr (Some p)
       \<and> transform_observations strptime decimal now [obs] sid = [p]
       \<and> series_id p = sid \<and> observation_date p = dt_date dt
       \<and> (dict_get obs ''value'' = None \<or> dict_get obs ''value'' = Some []
            \<or> dict_get obs ''value'' = Some ''.''
            \<or> (\<exists>v e. dict_get obs ''value'' = Some v \<and> decimal v = Inl e)
          \<longrightarrow> obs_value p = None)
       \<and> (\<forall>v x. dict_get obs ''value'' = Some v \<and> v \<noteq> [] \<and> v \<noteq> ''.'' \<and> decimal v = Inr x
          \<longrightarrow> obs_value p = Some x)"
proof -
  from transform_single_when_date_parses
         [where strptime = strptime and decimal = decimal and obs = obs and ds = ds and dt = dt
            and now = now and sid = sid,
          OF assms]
  obtain v rs re where pv: "parse_value decimal (dict_get obs ''value'') = Inr v"
    and ts: "transform_single_observation strptime decimal now obs sid
        = Inr (Some \<lparr>series_id = sid, observation_date = dt_date dt, obs_value = v,
                     realtime_start = rs, realtime_end = re, created_at = now\<rparr>)"
    by blast
  let ?p = "\<lparr>series_id = sid, observation_date = dt_date dt, obs_value = v,
             realtime_start = rs, realtime_end = re, created_at = now\<rparr>"
  have null: "dict_get obs ''value'' = None \<or> dict_get obs ''value'' = Some []
            \<or> dict_get obs ''value'' = Some ''.''
            \<or> (\<exists>v e. dict_get obs ''value'' = Some v \<and> decimal v = Inl e) \<longrightarrow> v = None"
    using pv assms(2)
    by (auto simp: parse_value_def decimal_contract_def split: if_splits)
  have num: "\<forall>w x. dict_get obs ''value'' = Some w \<and> w \<noteq> [] \<and> w \<noteq> ''.'' \<and> decimal w = Inr x
          \<longrightarrow> v = Some x"
    using pv by (auto simp: parse_value_def)
  have "transform_observations strptime decimal now [obs] sid = [?p]"
    using ts by simp
  with ts null num show ?thesis by simp
qed

text \<open>
  Claim C5 (partial-batch tolerance). \<open>transform_observations\<close> returns, in order, the
  transforms of exactly the records whose \<open>date\<close> is present and parses; the others are
  dropped, and no exception leaves the loop.
\<close>

theorem partial_batch_tolerance:
  assumes "strptime_contract strptime" and "decimal_contract decimal"
  shows "map (\<lambda>p. Inr (Some p)) (transform_observations strptime decimal now raws sid)
           = map (\<lambda>obs. transform_single_observation strptime decimal now obs sid)
               (filter (date_parses strptime) raws)
       \<and> length (transform_observations strptime decimal now raws sid)
           = length (filter (date_parses strptime) raws)"
proof -
  have eq: "map (\<lambda>p. Inr (Some p)) (transform_observations strptime decimal now raws sid)
           = map (\<lambda>obs. transform_single_observation strptime decimal now obs sid)
               (filter (date_parses strptime) raws)"
  proof (induction raws)
    case Nil
    then show ?case by simp
  next
    case (Cons obs raws)
    show ?case
    proof (cases "date_parses strptime obs")
      case True
      from date_parsesD[OF True] obtain ds dt where
        d: "obs ''date'' = Some (Some ds)" "ds \<noteq> []" "strptime ds ''%Y-%m-%d'' = Inr dt"
        by blast
      from transform_single_when_date_parses
             [where strptime = strptime and decimal = decimal and obs = obs and ds = ds and dt = dt
            and now = now and sid = sid,
              OF assms d]
      obtain p where "transform_single_observation strptime decimal now obs sid = Inr (Some p)"
        by blast
      with True Cons show ?thesis by simp
    next
      case False
      from transform_single_when_date_fails[OF assms(1) False, of decimal now sid]
      show ?thesis using False Cons by simp
    qed
  qed
  from eq have "length (map (\<lambda>p. Inr (Some p) :: exn + 'a obs_data option)
                    (transform_observations strptime decimal now raws sid))
           = length (map (\<lambda>obs. transform_single_observation strptime decimal now obs sid)
               (filter (date_parses strptime) raws))"
    by (rule arg_cong)
  then have "length (transform_observations strptime decimal now raws sid)
           = length (filter (date_parses strptime) raws)"
    by (simp only: length_map)
  with eq show ?thesis by (rule conjI)
qed

theorem parse_datetime_total_and_strips_witness:
  "strptime_contract example_strptime
   \<and> CHR ''-'' \<notin> set ''05'' \<and> CHR '' '' \<in> set (''2025-07-30 07:56:35'' @ ''05'')
   \<and> parse_datetime example_strptime (Some ''2025-07-30 07:56:35-05'')
       = Inr (Some \<lparr>dt_date = \<lparr>year = 2025, month = 7, day = 30\<rparr>,
                     hour = 7, minute = 56, second = 35\<rparr>)"
proof -
  have h: "CHR ''-'' \<notin> set ''05'' \<and> CHR '' '' \<in> set (''2025-07-30 07:56:35'' @ ''05'')"
    by simp
  from parse_datetime_total_and_strips [OF example_strptime_contract, of None]
  have "\<forall>pre suf. CHR ''-'' \<notin> set suf \<and> CHR '' '' \<in> set (pre @ suf) \<longrightarrow>
            parse_datetime example_strptime (Some (pre @ CHR ''-'' # suf))
              = (case example_strptime pre ''%Y-%m-%d %H:%M:%S'' of
                   Inr dt \<Rightarrow> Inr (Some dt)
                 | Inl e \<Rightarrow> Inr None)"
    by blast
  with h have "parse_datetime example_strptime (Some (''2025-07-30 07:56:35'' @ CHR ''-'' # ''05''))
              = (case example_strptime ''2025-07-30 07:56:35'' ''%Y-%m-%d %H:%M:%S'' of
                   Inr dt \<Rightarrow> Inr (Some dt)
                 | Inl e \<Rightarrow> Inr None)"
    by blast
  then have "parse_datetime example_strptime (Some ''2025-07-30 07:56:35-05'')
       = Inr (Some \<lparr>dt_date = \<lparr>year = 2025, month = 7, day = 30\<rparr>,
                     hour = 7, minute = 56, second = 35\<rparr>)"
    by (simp add: example_strptime_def)
  with h example_strptime_contract show ?thesis by blast
qed

theorem null_value_sentinel_witness:
  "strptime_contract example_strptime \<and> decimal_contract example_decimal
   \<and> raw_obs ''2024-10-01'' ''.'' ''date'' = Some (Some ''2024-10-01'')
   \<and> ''2024-10-01'' \<noteq> []
   \<and> example_strptime ''2024-10-01'' ''%Y-%m-%d'' = Inr (midnight 2024 10 1)
   \<and> dict_get (raw_obs ''2024-10-01'' ''.'') ''value'' = Some ''.''
   \<and> (\<exists>p. transform_single_observation example_strptime example_decimal example_now
              (raw_obs ''2024-10-01'' ''.'') ''GDP'' = Inr (Some p)
          \<and> transform_observations example_strptime example_decimal example_now
              [raw_obs ''2024-10-01'' ''.''] ''GDP'' = [p]
          \<and> observation_date p = \<lparr>year = 2024, month = 10, day = 1\<rparr>
          \<and> obs_value p = None)"
proof -
  have h3: "raw_obs ''2024-10-01'' ''.'' ''date'' = Some (Some ''2024-10-01'')"
    by (simp add: raw_obs_def)
  have h4: "''2024-10-01'' \<noteq> []" by simp
  have h5: "example_strptime ''2024-10-01'' ''%Y-%m-%d'' = Inr (midnight 2024 10 1)"
    by (simp add: example_strptime_def)
  have v: "dict_get (raw_obs ''2024-10-01'' ''.'') ''value'' = Some ''.''"
    by (simp add: raw_obs_def dict_get_def)
  from null_value_sentinel
         [where strptime = example_strptime and decimal = example_decimal
            and obs = "raw_obs ''2024-10-01'' ''.''" and ds = "''2024-10-01''"
            and dt = "midnight 2024 10 1" and now = example_now and sid = "''GDP''",
          OF example_strptime_contract example_decimal_contract h3 h4 h5]
  obtain p where p: "transform_single_observation example_strptime example_decimal example_now
              (raw_obs ''2024-10-01'' ''.'') ''GDP'' = Inr (Some p)"
      "transform_observations example_strptime example_decimal example_now
              [raw_obs ''2024-10-01'' ''.''] ''GDP'' = [p]"
      "observation_date p = dt_date (midnight 2024 10 1)"
      "obs_value p = None"
    using v by auto
  from p(3) have "observation_date p = \<lparr>year = 2024, month = 10, day = 1\<rparr>"
    by (simp add: midnight_def)
  with p h3 h4 h5 v example_strptime_contract example_decimal_contract
  show ?thesis by blast
qed

lemma ten_dates:
  "filter (date_parses example_strptime) ten_raw_observations =
     [raw_obs ''2025-04-01'' ''30331.117'',
      raw_obs ''2025-01-01'' ''29962.047'',
      raw_obs ''2024-10-01'' ''.'',
      raw_obs ''2024-07-01'' ''n/a'',
      raw_obs ''2024-04-01'' ''100'',
      raw_obs ''2024-01-01'' ''0'',
      raw_obs ''2023-10-01'' [],
      raw_obs ''2023-07-01'' ''105'']"
  by (simp add: ten_raw_observations_def date_parses_def raw_obs_def raw_obs_without_date_def
      example_strptime_def)

theorem partial_batch_tolerance_witness:
  "strptime_contract example_strptime \<and> decimal_contract example_decimal
   \<and> length ten_raw_observations = 10
   \<and> length (filter (\<lambda>obs. \<not> date_parses example_strptime obs) ten_raw_observations) = 2
   \<and> length (transform_observations example_strptime example_decimal example_now
               ten_raw_observations ''GDP'') = 8"
proof -
  have bad: "filter (\<lambda>obs. \<not> date_parses example_strptime obs) ten_raw_observations
      = [raw_obs_without_date ''100'', raw_obs ''not-a-date'' ''105'']"
    by (simp add: ten_raw_observations_def date_parses_def raw_obs_def raw_obs_without_date_def
        example_strptime_def)
  have good: "length (filter (date_parses example_strptime) ten_raw_observations) = 8"
    by (simp add: ten_dates)
  from partial_batch_tolerance [OF example_strptime_contract example_decimal_contract,
         of example_now ten_raw_observations "''GDP''"] good
  have "length (transform_observations example_strptime example_decimal example_now
               ten_raw_observations ''GDP'') = 8"
    by simp
  moreover have "length ten_raw_observations = 10"
    by (simp add: ten_raw_observations_def)
  ultimately show ?thesis
    using bad example_strptime_contract example_decimal_contract by simp
qed

section \<open>Properties of the series upsert\<close>

text \<open>
  Claim C6 (metadata skip-on-exists). With update disabled, \<open>_upsert_series\<close> on a
  series that exists returns the table unchanged, whatever the incoming payload holds, and
  reports not-added. On an unknown series it inserts the row and reports added; a second
  call for the same series, even with a different title, then leaves the table as it is
  and reports not-added.
\<close>

theorem metadata_skip_on_exists:
  assumes "s_series_id d2 = s_series_id d1"
  shows "(\<forall>e. tbl (s_series_id d1) = Some e \<longrightarrow> upsert_series tbl d2 False = (tbl, False))
       \<and> (tbl (s_series_id d1) = None \<longrightarrow>
            upsert_series tbl d1 False = (tbl(s_series_id d1 \<mapsto> new_series d1), True)
          \<and> upsert_series (tbl(s_series_id d1 \<mapsto> new_series d1)) d2 False
               = (tbl(s_series_id d1 \<mapsto> new_series d1), False)
          \<and> title (new_series d1) = title d1)"
  using assms
  by (auto simp: upsert_series_def Let_def new_series_def series_data.defs series_row.defs)

theorem metadata_skip_on_exists_witness:
  "s_series_id (example_series ''GDP'' ''Another title'' None)
     = s_series_id (example_series ''GDP'' ''Gross Domestic Product'' None)
   \<and> (Map.empty :: series_table) ''GDP'' = None
   \<and> upsert_series Map.empty (example_series ''GDP'' ''Gross Domestic Product'' None) False
       = ([''GDP'' \<mapsto> new_series (example_series ''GDP'' ''Gross Domestic Product'' None)], True)
   \<and> upsert_series [''GDP'' \<mapsto> new_series (example_series ''GDP'' ''Gross Domestic Product'' None)]
         (example_series ''GDP'' ''Another title'' None) False
       = ([''GDP'' \<mapsto> new_series (example_series ''GDP'' ''Gross Domestic Product'' None)], False)
   \<and> title (new_series (example_series ''GDP'' ''Gross Domestic Product'' None))
       = ''Gross Domestic Product''"
proof -
  have h: "s_series_id (example_series ''GDP'' ''Another title'' None)
     = s_series_id (example_series ''GDP'' ''Gross Domestic Product'' None)"
    by (simp add: example_series_def)
  have k: "s_series_id (example_series ''GDP'' ''Gross Domestic Product'' None) = ''GDP''"
    by (simp add: example_series_def)
  have t: "title (example_series ''GDP'' ''Gross Domestic Product'' None) = ''Gross Domestic Product''"
    by (simp add: example_series_def)
  from metadata_skip_on_exists [OF h, of Map.empty] k t h show ?thesis by simp
qed

text \<open>
  Claim C7, as the code has it (update-mode frame condition). With update requested,
  \<open>_upsert_series\<close> on an existing series reports not-added and assigns every key of the
  incoming dictionary except \<open>created_at\<close>. The creation timestamp keeps its stored
  value, and so do the columns for which the dictionary has no key: \<open>subcategory\<close>
  always, \<open>category\<close> when the payload has none.
\<close>

theorem series_update_frame:
  assumes "tbl (s_series_id d) = Some e"
  shows "\<exists>r. upsert_series tbl d True = (tbl(s_series_id d \<mapsto> r), False)
       \<and> s_created_at r = s_created_at e
       \<and> subcategory r = subcategory e
       \<and> category r = (case category d of None \<Rightarrow> category e | Some c \<Rightarrow> Some c)
       \<and> s_series_id r = s_series_id d \<and> title r = title d \<and> units r = units d
       \<and> units_short r = units_short d \<and> frequency r = frequency d
       \<and> frequency_short r = frequency_short d
       \<and> seasonal_adjustment r = seasonal_adjustment d \<and> source r = source d
       \<and> series_notes r = series_notes d \<and> popularity r = popularity d
       \<and> observation_start r = observation_start d \<and> observation_end r = observation_end d
       \<and> last_updated r = last_updated d \<and> updated_at r = updated_at d"
proof (intro exI [of _ "update_series d e"] conjI)
  show "upsert_series tbl d True = (tbl(s_series_id d \<mapsto> update_series d e), False)"
    using assms by (simp add: upsert_series_def)
qed (simp_all add: update_series_def)

text \<open>
  Claim C7 as stated fails on the column \<open>category\<close>: a stored category is not
  overwritten by a payload that carries none; the update leaves the whole row as it was.
\<close>

theorem series_update_category_counterexample:
  "upsert_series [''GDP'' \<mapsto> new_series (example_series ''GDP'' ''Gross Domestic Product'' (Some ''106''))]
      (example_series ''GDP'' ''Gross Domestic Product'' None) True
    = ([''GDP'' \<mapsto> new_series (example_series ''GDP'' ''Gross Domestic Product'' (Some ''106''))], False)
   \<and> category (new_series (example_series ''GDP'' ''Gross Domestic Product'' (Some ''106'')))
       \<noteq> category (example_series ''GDP'' ''Gross Domestic Product'' None)"
  by (simp add: upsert_series_def update_series_def example_series_def new_series_def
      series_data.defs series_row.defs)

theorem series_update_frame_witness:
  "[''GDP'' \<mapsto> new_series (example_series ''GDP'' ''Old title'' None)]
     (s_series_id ((example_series ''GDP'' ''Gross Domestic Product'' (Some ''106''))
                     \<lparr>s_created_at := midnight 2026 1 1\<rparr>))
     = Some (new_series (example_series ''GDP'' ''Old title'' None))
   \<and> (\<exists>r. upsert_series [''GDP'' \<mapsto> new_series (example_series ''GDP'' ''Old title'' None)]
              ((example_series ''GDP'' ''Gross Domestic Product'' (Some ''106''))
                     \<lparr>s_created_at := midnight 2026 1 1\<rparr>) True
            = ([''GDP'' \<mapsto> r], False)
          \<and> s_created_at r = example_now
          \<and> title r = ''Gross Domestic Product''
          \<and> category r = Some ''106''
          \<and> subcategory r = None)"
proof -
  let ?tbl = "[''GDP'' \<mapsto> new_series (example_series ''GDP'' ''Old title'' None)]"
  let ?d = "(example_series ''GDP'' ''Gross Domestic Product'' (Some ''106''))
                     \<lparr>s_created_at := midnight 2026 1 1\<rparr>"
  have k: "s_series_id ?d = ''GDP''" unfolding example_series_def by simp
  have h: "?tbl (s_series_id ?d) = Some (new_series (example_series ''GDP'' ''Old title'' None))"
    using k by (simp del: fun_upd_apply add: fun_upd_same)
  from series_update_frame [where tbl = ?tbl and d = ?d, OF h]
  obtain r where r: "upsert_series ?tbl ?d True = (?tbl(s_series_id ?d \<mapsto> r), False)"
    "s_created_at r = s_created_at (new_series (example_series ''GDP'' ''Old title'' None))"
    "subcategory r = subcategory (new_series (example_series ''GDP'' ''Old title'' None))"
    "category r = (case category ?d of None \<Rightarrow>
         category (new_series (example_series ''GDP'' ''Old title'' None)) | Some c \<Rightarrow> Some c)"
    "title r = title ?d"
    by blast
  have "upsert_series ?tbl ?d True = ([''GDP'' \<mapsto> r], False)"
    using r(1) k by (simp del: fun_upd_apply)
  moreover have "s_created_at r = example_now"
    using r(2) unfolding new_series_def example_series_def
    by (simp add: series_data.defs series_row.defs)
  moreover have "subcategory r = None"
    using r(3) by (simp add: new_series_def series_data.defs series_row.defs)
  moreover have "category r = Some ''106''"
    using r(4) unfolding example_series_def by simp
  moreover have "title r = ''Gross Domestic Product''"
    using r(5) unfolding example_series_def by simp
  ultimately show ?thesis using h by blast
qed

section \<open>Properties of the orchestrator\<close>

lemma upsert_series_keeps:
  "tbl k \<noteq> None \<Longrightarrow> fst (upsert_series tbl d u) k \<noteq> None"
  by (auto simp: upsert_series_def Let_def split: option.splits)

lemma log_sync_result_series [simp]:
  "fred_series (log_sync_result db r t) = fred_series db"
  by (simp add: log_sync_result_def Let_def)

lemma log_sync_result_log:
  "set (fred_sync_log db) \<subseteq> set (fred_sync_log (log_sync_result db r t))"
  by (auto simp: log_sync_result_def Let_def)

lemma log_sync_result_records:
  "fred_series db (res_series_id r) \<noteq> None \<Longrightarrow> \<not> res_success r \<Longrightarrow>
     failure_recorded (log_sync_result db r t) (res_series_id r)"
  by (auto simp: log_sync_result_def Let_def failure_recorded_def list_ex_iff)

text \<open>
  The shape of every run of \<open>ingest_series\<close>: it returns a result for the series it was
  called for; it either ends by logging that result or returns early with success; it
  keeps the series that were stored and the ledger rows that were written.
\<close>

lemma ingest_series_shape:
  "\<exists>db1 r. res_series_id r = sid
      \<and> fred_sync_log db1 = fred_sync_log db
      \<and> (\<forall>k. fred_series db k \<noteq> None \<longrightarrow> fred_series db1 k \<noteq> None)
      \<and> (ingest_series env db sid u days = (log_sync_result db1 r (env_now env), r)
           \<or> ingest_series env db sid u days = (db1, r) \<and> res_success r)"
proof -
  let ?r0 = "\<lparr>res_series_id = sid, res_success = False, series_added = False,
                    observations_added = 0, observations_updated = 0,
                    res_error_message = None, res_api_calls_used = 0\<rparr>"
  show ?thesis
  proof (cases "fetch_series_info env sid")
    case (Inl msg)
    then have "ingest_series env db sid u days
        = (log_sync_result db (?r0\<lparr>res_error_message := Some msg\<rparr>) (env_now env),
           ?r0\<lparr>res_error_message := Some msg\<rparr>)"
      by (simp add: ingest_series_def ingest_failed_def Let_def)
    then show ?thesis by (intro exI[of _ db] exI[of _ "?r0\<lparr>res_error_message := Some msg\<rparr>"]) simp
  next
    case (Inr raw)
    note raw = this
    let ?r1 = "?r0\<lparr>res_api_calls_used := res_api_calls_used ?r0 + 1\<rparr>"
    show ?thesis
    proof (cases "transform_fred_series env raw")
      case (Inl msg)
      with raw have "ingest_series env db sid u days
        = (log_sync_result db (?r1\<lparr>res_error_message := Some msg\<rparr>) (env_now env),
           ?r1\<lparr>res_error_message := Some msg\<rparr>)"
        by (simp add: ingest_series_def ingest_failed_def Let_def)
      then show ?thesis by (intro exI[of _ db] exI[of _ "?r1\<lparr>res_error_message := Some msg\<rparr>"]) simp
    next
      case (Inr sd)
      note sd = this
      show ?thesis
      proof (cases "validate_series_data sd")
        case False
        with raw sd have "ingest_series env db sid u days
          = (log_sync_result db (?r1\<lparr>res_error_message := Some (''Series data validation failed for '' @ sid)\<rparr>) (env_now env),
             ?r1\<lparr>res_error_message := Some (''Series data validation failed for '' @ sid)\<rparr>)"
          by (simp add: ingest_series_def ingest_failed_def Let_def)
        then show ?thesis
          by (intro exI[of _ db] exI[of _ "?r1\<lparr>res_error_message := Some (''Series data validation failed for '' @ sid)\<rparr>"]) simp
      next
        case True
        note valid = this
        obtain tbl added where ups: "upsert_series (fred_series db) sd u = (tbl, added)"
          by (cases "upsert_series (fred_series db) sd u") auto
        let ?db1 = "db\<lparr>fred_series := tbl\<rparr>"
        let ?r2 = "?r1\<lparr>series_added := added\<rparr>"
        have keep: "\<forall>k. fred_series db k \<noteq> None \<longrightarrow> fred_series ?db1 k \<noteq> None"
          using upsert_series_keeps[of "fred_series db" _ sd u] ups by simp
        have log1: "fred_sync_log ?db1 = fred_sync_log db" by simp
        let ?start = "if \<not> u then Inr None else map_sum id Some (cutoff_date env days)"
        show ?thesis
        proof (cases ?start)
          case (Inl msg)
          with raw sd valid ups have "ingest_series env db sid u days
            = (log_sync_result ?db1 (?r2\<lparr>res_error_message := Some msg\<rparr>) (env_now env),
               ?r2\<lparr>res_error_message := Some msg\<rparr>)"
            by (simp add: ingest_series_def ingest_failed_def Let_def)
          with keep log1 show ?thesis
            by (intro exI[of _ ?db1] exI[of _ "?r2\<lparr>res_error_message := Some msg\<rparr>"]) simp
        next
          case (Inr start_date)
          note start = this
          show ?thesis
          proof (cases "fetch_observations env sid start_date")
            case (Inl msg)
            with raw sd valid ups start have "ingest_series env db sid u days
              = (log_sync_result ?db1 (?r2\<lparr>res_error_message := Some msg\<rparr>) (env_now env),
                 ?r2\<lparr>res_error_message := Some msg\<rparr>)"
              by (simp add: ingest_series_def ingest_failed_def Let_def)
            with keep log1 show ?thesis
              by (intro exI[of _ ?db1] exI[of _ "?r2\<lparr>res_error_message := Some msg\<rparr>"]) simp
          next
            case (Inr raws)
            note raws = this
            let ?r3 = "?r2\<lparr>res_api_calls_used := res_api_calls_used ?r2 + 1\<rparr>"
            show ?thesis
            proof (cases "raws = []")
              case True
              with raw sd valid ups start raws have "ingest_series env db sid u days
                = (?db1, ?r3\<lparr>res_success := True\<rparr>)"
                by (simp add: ingest_series_def Let_def)
              with keep log1 show ?thesis
                by (intro exI[of _ ?db1] exI[of _ "?r3\<lparr>res_success := True\<rparr>"]) simp
            next
              case False
              note nonempty = this
              let ?valid = "filter validate_observation_data
                  (transform_observations (env_strptime env) (env_decimal env) (env_now env) raws sid)"
              let ?up = "if ?valid \<noteq> [] then upsert_observations (fred_observations ?db1) ?valid
                         else Inr (fred_observations ?db1, 0, 0)"
              show ?thesis
              proof (cases ?up)
                case (Inl e)
                with raw sd valid ups start raws nonempty have "ingest_series env db sid u days
                  = (log_sync_result ?db1 (?r3\<lparr>res_error_message := Some (db_error_message e)\<rparr>) (env_now env),
                     ?r3\<lparr>res_error_message := Some (db_error_message e)\<rparr>)"
                  by (simp add: ingest_series_def ingest_failed_def Let_def)
                with keep log1 show ?thesis
                  by (intro exI[of _ ?db1] exI[of _ "?r3\<lparr>res_error_message := Some (db_error_message e)\<rparr>"]) simp
              next
                case (Inr res)
                obtain t a b where res: "res = (t, a, b)" by (cases res) auto
                let ?db2 = "?db1\<lparr>fred_observations := t\<rparr>"
                let ?r4 = "?r3\<lparr>observations_added := a, observations_updated := b, res_success := True\<rparr>"
                from Inr res raw sd valid ups start raws nonempty
                have "ingest_series env db sid u days = (log_sync_result ?db2 ?r4 (env_now env), ?r4)"
                  by (simp add: ingest_series_def Let_def)
                with keep log1 show ?thesis
                  by (intro exI[of _ ?db2] exI[of _ ?r4]) simp
              qed
            qed
          qed
        qed
      qed
    qed
  qed
qed

lemma ingest_series_id [simp]:
  "res_series_id (snd (ingest_series env db sid u days)) = sid"
  using ingest_series_shape[of sid db env u days] by auto

lemma ingest_series_keeps_series:
  "fred_series db k \<noteq> None \<Longrightarrow> fred_series (fst (ingest_series env db sid u days)) k \<noteq> None"
  using ingest_series_shape[of sid db env u days] by auto

lemma ingest_series_log_grows:
  "set (fred_sync_log db) \<subseteq> set (fred_sync_log (fst (ingest_series env db sid u days)))"
proof -
  from ingest_series_shape[of sid db env u days]
  obtain db1 r where l: "fred_sync_log db1 = fred_sync_log db"
    and c: "ingest_series env db sid u days = (log_sync_result db1 r (env_now env), r)
           \<or> ingest_series env db sid u days = (db1, r) \<and> res_success r"
    by blast
  from c show ?thesis
  proof
    assume "ingest_series env db sid u days = (log_sync_result db1 r (env_now env), r)"
    then show ?thesis using log_sync_result_log[of db1 r "env_now env"] l by simp
  next
    assume "ingest_series env db sid u days = (db1, r) \<and> res_success r"
    then show ?thesis using l by simp
  qed
qed

lemma failure_recorded_mono:
  "set (fred_sync_log db) \<subseteq> set (fred_sync_log db') \<Longrightarrow>
     failure_recorded db k \<Longrightarrow> failure_recorded db' k"
  by (auto simp: failure_recorded_def list_ex_iff)

lemma ingest_series_failure_recorded:
  assumes "\<not> res_success (snd (ingest_series env db sid u days))"
    and "fred_series db sid \<noteq> None"
  shows "failure_recorded (fst (ingest_series env db sid u days)) sid"
proof -
  from ingest_series_shape[of sid db env u days]
  obtain db1 r where id: "res_series_id r = sid"
    and k: "\<forall>k. fred_series db k \<noteq> None \<longrightarrow> fred_series db1 k \<noteq> None"
    and c: "ingest_series env db sid u days = (log_sync_result db1 r (env_now env), r)
           \<or> ingest_series env db sid u days = (db1, r) \<and> res_success r"
    by blast
  from c assms(1) have run: "ingest_series env db sid u days = (log_sync_result db1 r (env_now env), r)"
    and fail: "\<not> res_success r" by auto
  from k assms(2) id have "fred_series db1 (res_series_id r) \<noteq> None" by simp
  from log_sync_result_records[OF this fail, of "env_now env"] run id show ?thesis by simp
qed

lemma ingest_series_fetch_failure:
  assumes "fetch_series_info env sid = Inl msg"
  shows "\<not> res_success (snd (ingest_series env db sid u days))
       \<and> res_error_message (snd (ingest_series env db sid u days)) = Some msg"
  using assms by (simp add: ingest_series_def ingest_failed_def Let_def)

lemma sync_loop_properties:
  "\<exists>db' new.
      sync_loop env db ids u days results calls ok bad
        = (db', results @ new,
           calls + sum_list (map res_api_calls_used new),
           ok + length (filter res_success new),
           bad + length (filter (\<lambda>r. \<not> res_success r) new))
    \<and> map res_series_id new = ids
    \<and> (\<forall>k. fred_series db k \<noteq> None \<longrightarrow> fred_series db' k \<noteq> None)
    \<and> set (fred_sync_log db) \<subseteq> set (fred_sync_log db')
    \<and> (\<forall>r \<in> set new. \<not> res_success r \<and> fred_series db (res_series_id r) \<noteq> None
          \<longrightarrow> failure_recorded db' (res_series_id r))
    \<and> (\<forall>r \<in> set new. \<forall>msg. fetch_series_info env (res_series_id r) = Inl msg
          \<longrightarrow> \<not> res_success r \<and> res_error_message r = Some msg)"
proof (induction ids arbitrary: db results calls ok bad)
  case Nil
  show ?case by (intro exI[of _ db] exI[of _ "[]"]) simp
next
  case (Cons sid rest)
  obtain db1 r where run: "ingest_series env db sid u days = (db1, r)"
    by (cases "ingest_series env db sid u days") auto
  have rid: "res_series_id r = sid" using ingest_series_id[of env db sid u days] run by simp
  have keep1: "\<forall>k. fred_series db k \<noteq> None \<longrightarrow> fred_series db1 k \<noteq> None"
    using ingest_series_keeps_series[of db _ env sid u days] run by simp
  have log1: "set (fred_sync_log db) \<subseteq> set (fred_sync_log db1)"
    using ingest_series_log_grows[of db env sid u days] run by simp
  have rec1: "\<not> res_success r \<and> fred_series db sid \<noteq> None \<longrightarrow> failure_recorded db1 sid"
    using ingest_series_failure_recorded[of env db sid u days] run by simp
  have fetch1: "\<forall>msg. fetch_series_info env sid = Inl msg
          \<longrightarrow> \<not> res_success r \<and> res_error_message r = Some msg"
    using ingest_series_fetch_failure[of env sid _ db u days] run by simp
  from Cons.IH[of db1 "results @ [r]" "calls + res_api_calls_used r"
                  "if res_success r then ok + 1 else ok"
                  "if res_success r then bad else bad + 1"]
  obtain db' new where
    loop: "sync_loop env db1 rest u days (results @ [r]) (calls + res_api_calls_used r)
             (if res_success r then ok + 1 else ok) (if res_success r then bad else bad + 1)
        = (db', (results @ [r]) @ new,
           (calls + res_api_calls_used r) + sum_list (map res_api_calls_used new),
           (if res_success r then ok + 1 else ok) + length (filter res_success new),
           (if res_success r then bad else bad + 1) + length (filter (\<lambda>r. \<not> res_success r) new))"
    and ids: "map res_series_id new = rest"
    and keep: "\<forall>k. fred_series db1 k \<noteq> None \<longrightarrow> fred_series db' k \<noteq> None"
    and log: "set (fred_sync_log db1) \<subseteq> set (fred_sync_log db')"
    and rec: "\<forall>r \<in> set new. \<not> res_success r \<and> fred_series db1 (res_series_id r) \<noteq> None
          \<longrightarrow> failure_recorded db' (res_series_id r)"
    and fetch: "\<forall>r \<in> set new. \<forall>msg. fetch_series_info env (res_series_id r) = Inl msg
          \<longrightarrow> \<not> res_success r \<and> res_error_message r = Some msg"
    by blast
  show ?case
  proof (intro exI[of _ db'] exI[of _ "r # new"] conjI)
    show "sync_loop env db (sid # rest) u days results calls ok bad
        = (db', results @ r # new,
           calls + sum_list (map res_api_calls_used (r # new)),
           ok + length (filter res_success (r # new)),
           bad + length (filter (\<lambda>r. \<not> res_success r) (r # new)))"
      using run loop by (simp add: add.assoc)
    show "map res_series_id (r # new) = sid # rest" using rid ids by simp
    show "\<forall>k. fred_series db k \<noteq> None \<longrightarrow> fred_series db' k \<noteq> None"
      using keep1 keep by blast
    show "set (fred_sync_log db) \<subseteq> set (fred_sync_log db')" using log1 log by blast
    show "\<forall>x \<in> set (r # new). \<not> res_success x \<and> fred_series db (res_series_id x) \<noteq> None
          \<longrightarrow> failure_recorded db' (res_series_id x)"
    proof
      fix x assume x: "x \<in> set (r # new)"
      show "\<not> res_success x \<and> fred_series db (res_series_id x) \<noteq> None
          \<longrightarrow> failure_recorded db' (res_series_id x)"
      proof (cases "x = r")
        case True
        with rec1 rid failure_recorded_mono[OF log, of sid] show ?thesis by auto
      next
        case False
        with x have "x \<in> set new" by simp
        with rec keep1 show ?thesis by blast
      qed
    qed
    show "\<forall>x \<in> set (r # new). \<forall>msg. fetch_series_info env (res_series_id x) = Inl msg
          \<longrightarrow> \<not> res_success x \<and> res_error_message x = Some msg"
      using fetch fetch1 rid by auto
  qed
qed

text \<open>
  Batch isolation. \<open>sync_multiple_series\<close> returns a result for every series, in
  order, whatever fails; the summary counts exactly the successful and the failed results;
  a series whose metadata fetch raises fails with the message of the exception; and a
  failed attempt is written to the ledger whenever the series had a row in
  \<open>fred_series\<close> when the batch began.
\<close>

lemma batch_isolation:
  "\<exists>db' s. sync_multiple_series env db ids u days = (db', s)
     \<and> map res_series_id (detailed_results s) = ids
     \<and> total_series s = length ids
     \<and> successful_series s = length (filter res_success (detailed_results s))
     \<and> failed_series s = length (filter (\<lambda>r. \<not> res_success r) (detailed_results s))
     \<and> successful_series s + failed_series s = length ids
     \<and> (\<forall>r \<in> set (detailed_results s). \<forall>msg.
           fetch_series_info env (res_series_id r) = Inl msg
           \<longrightarrow> \<not> res_success r \<and> res_error_message r = Some msg)
     \<and> (\<forall>r \<in> set (detailed_results s).
           \<not> res_success r \<and> fred_series db (res_series_id r) \<noteq> None
           \<longrightarrow> failure_recorded db' (res_series_id r))"
proof -
  from sync_loop_properties[of env db ids u days "[]" 0 0 0]
  obtain db' new where
    loop: "sync_loop env db ids u days [] 0 0 0
        = (db', new, sum_list (map res_api_calls_used new),
           length (filter res_success new),
           length (filter (\<lambda>r. \<not> res_success r) new))"
    and ids: "map res_series_id new = ids"
    and rec: "\<forall>r \<in> set new. \<not> res_success r \<and> fred_series db (res_series_id r) \<noteq> None
          \<longrightarrow> failure_recorded db' (res_series_id r)"
    and fetch: "\<forall>r \<in> set new. \<forall>msg. fetch_series_info env (res_series_id r) = Inl msg
          \<longrightarrow> \<not> res_success r \<and> res_error_message r = Some msg"
    by auto
  let ?s = "\<lparr>total_series = length ids,
             successful_series = length (filter res_success new),
             failed_series = length (filter (\<lambda>r. \<not> res_success r) new),
             total_api_calls = sum_list (map res_api_calls_used new),
             sync_timestamp = env_now env,
             detailed_results = new\<rparr>"
  have run: "sync_multiple_series env db ids u days = (db', ?s)"
    using loop by (simp add: sync_multiple_series_def)
  have len: "length new = length ids" using ids by (metis length_map)
  have sum: "length (filter res_success new) + length (filter (\<lambda>r. \<not> res_success r) new)
               = length ids"
    using sum_length_filter_compl[of res_success new] len by simp
  show ?thesis
    by (intro exI[of _ db'] exI[of _ ?s] conjI) (use run ids sum rec fetch in simp_all)
qed

text \<open>The example environment returns the metadata of the series it is asked for.\<close>

lemma example_env_returns_requested: "returns_requested_series example_env"
  by (auto simp: returns_requested_series_def example_env_def example_series_def
      split: if_splits)

lemmas example_defs =
  example_env_def empty_database_def empty_table_def example_series_def example_now_def
  example_date_def example_strptime_def example_decimal_def raw_obs_def midnight_def

lemmas model_defs =
  ingest_series_def ingest_failed_def log_sync_result_def Let_def
  upsert_series_def new_series_def validate_series_data_def validate_observation_data_def
  transform_single_observation_def parse_date_def parse_value_def dict_get_def
  upsert_observations_def select_obs_def key_matches_def add_obs_def new_obs_def
  update_obs_def overwrite_def series_data.defs series_row.defs obs_data.defs obs_row.defs

text \<open>
  Claim C8 (batch isolation across series) asks that each failure be recorded in that
  series' own ledger row. Here the second of three series fails during the fetch of its
  metadata and has never been ingested: the batch goes on and the summary reports 2
  succeeded and 1 failed, but the ledger holds rows for the first and the third series
  only. The row of the failed series is rejected by the foreign key of
  \<open>fred_sync_log.series_id\<close>, and \<open>_log_sync_result\<close> swallows the error.
\<close>

theorem failed_first_ingestion_leaves_no_ledger_row:
  "fetch_series_info example_env ''NOPE'' = Inl ''FRED API error: 400 - Bad Request''
   \<and> successful_series (snd (sync_multiple_series example_env empty_database
         [''GDP'', ''NOPE'', ''UNRATE''] False 30)) = 2
   \<and> failed_series (snd (sync_multiple_series example_env empty_database
         [''GDP'', ''NOPE'', ''UNRATE''] False 30)) = 1
   \<and> map res_success (detailed_results (snd (sync_multiple_series example_env empty_database
         [''GDP'', ''NOPE'', ''UNRATE''] False 30))) = [True, False, True]
   \<and> map log_series_id (fred_sync_log (fst (sync_multiple_series example_env empty_database
         [''GDP'', ''NOPE'', ''UNRATE''] False 30))) = [''GDP'', ''UNRATE'']
   \<and> \<not> failure_recorded (fst (sync_multiple_series example_env empty_database
         [''GDP'', ''NOPE'', ''UNRATE''] False 30)) ''NOPE''"
proof -
  have run: "sync_multiple_series example_env empty_database [''GDP'', ''NOPE'', ''UNRATE''] False 30
     = (fst (sync_multiple_series example_env empty_database [''GDP'', ''NOPE'', ''UNRATE''] False 30),
        snd (sync_multiple_series example_env empty_database [''GDP'', ''NOPE'', ''UNRATE''] False 30))"
    by simp
  have ev: "case sync_multiple_series example_env empty_database [''GDP'', ''NOPE'', ''UNRATE''] False 30 of
     (db', s) \<Rightarrow> successful_series s = 2 \<and> failed_series s = 1
        \<and> map res_success (detailed_results s) = [True, False, True]
        \<and> map log_series_id (fred_sync_log db') = [''GDP'', ''UNRATE'']
        \<and> \<not> failure_recorded db' ''NOPE''"
    by (simp add: sync_multiple_series_def failure_recorded_def example_defs model_defs)
  have "fetch_series_info example_env ''NOPE'' = Inl ''FRED API error: 400 - Bad Request''"
    by (simp add: example_env_def)
  with ev show ?thesis by (simp add: case_prod_beta)
qed

end
